theory Spec2Isabelle
  imports Complex_Main
begin

section \<open>Residual connections notebook: blocks, topologies and the training loop\<close>

text \<open>
  The notebook \<^verbatim>\<open>residual-connections.ipynb\<close> defines three modules (\<^verbatim>\<open>Block\<close>,
  \<^verbatim>\<open>ResBlock\<close>, \<^verbatim>\<open>AltBlock\<close>), four \<^verbatim>\<open>nn.Sequential\<close> networks and the function
  \<^verbatim>\<open>train_loop\<close>. The tensor library is not part of the notebook; the layers it calls
  (\<^verbatim>\<open>nn.Conv2d\<close>, \<^verbatim>\<open>nn.BatchNorm2d\<close>, \<^verbatim>\<open>nn.ReLU\<close>, tensor addition, pooling, flatten,
  linear) are written out below over the reals, following the library's documented
  arithmetic. Floating-point rounding is not modelled.
\<close>

subsection \<open>Errors and Python values\<close>

text \<open>
  The notebook raises nothing itself; every failure comes from a library call or from a
  division. \<open>ShapeError\<close> stands for the library's shape failures (wrong rank, channel
  mismatch, kernel larger than the padded input, operands that do not broadcast),
  \<open>BatchStatError\<close> for batch normalisation's refusal, in training mode, of an input
  with a single value per channel, \<open>IndexError\<close> for an index outside a dataset.
\<close>

datatype error = ShapeError | BatchStatError | IndexError | ZeroDivisionError

text \<open>The flag \<^verbatim>\<open>rl\<close> of a \<^verbatim>\<open>Block\<close> is tested for truth; the notebook passes
  \<^verbatim>\<open>True\<close> (the default) or \<^verbatim>\<open>None\<close>.\<close>

datatype pyflag = PyNone | PyBool bool

fun truthy :: "pyflag \<Rightarrow> bool" where
  "truthy PyNone = False"
| "truthy (PyBool b) = b"

subsection \<open>Tensors\<close>

text \<open>
  A tensor is its shape and its elements, read by index. Every operation below returns
  elements that are \<open>0\<close> outside the shape, so equal tensors are equal records.
\<close>

record tensor =
  shape :: "nat list"
  elems :: "nat list \<Rightarrow> real"

definition in_bounds :: "nat list \<Rightarrow> nat list \<Rightarrow> bool" where
  "in_bounds s idx = list_all2 (<) idx s"

definition wf_tensor :: "tensor \<Rightarrow> bool" where
  "wf_tensor t = (\<forall>idx. \<not> in_bounds (shape t) idx \<longrightarrow> elems t idx = 0)"

definition zeros :: "nat list \<Rightarrow> tensor" where
  "zeros s = \<lparr>shape = s, elems = (\<lambda>idx. 0)\<rparr>"

text \<open>\<^verbatim>\<open>nn.ReLU()\<close>: element-wise \<open>max 0\<close>.\<close>

definition relu_t :: "tensor \<Rightarrow> tensor" where
  "relu_t x = \<lparr>shape = shape x, elems = (\<lambda>idx. max 0 (elems x idx))\<rparr>"

text \<open>
  Tensor addition broadcasts: shapes are aligned at their last dimension, and two
  dimensions are compatible when they are equal or one of them is 1.
\<close>

definition broadcast_dim :: "nat \<Rightarrow> nat \<Rightarrow> nat option" where
  "broadcast_dim a b =
     (if a = b then Some a else if a = 1 then Some b else if b = 1 then Some a else None)"

fun broadcast_rev :: "nat list \<Rightarrow> nat list \<Rightarrow> nat list option" where
  "broadcast_rev [] ys = Some ys"
| "broadcast_rev (x # xs) [] = Some (x # xs)"
| "broadcast_rev (x # xs) (y # ys) =
     (case broadcast_dim x y of
        None \<Rightarrow> None
      | Some d \<Rightarrow> (case broadcast_rev xs ys of None \<Rightarrow> None | Some ds \<Rightarrow> Some (d # ds)))"

definition broadcast_shapes :: "nat list \<Rightarrow> nat list \<Rightarrow> nat list option" where
  "broadcast_shapes s t = map_option rev (broadcast_rev (rev s) (rev t))"

definition bidx :: "nat list \<Rightarrow> nat list \<Rightarrow> nat list" where
  "bidx s idx = map2 (\<lambda>d i. if d = 1 then 0 else i) s (drop (length idx - length s) idx)"

definition add_t :: "tensor \<Rightarrow> tensor \<Rightarrow> error + tensor" where
  "add_t x y =
     (case broadcast_shapes (shape x) (shape y) of
        None \<Rightarrow> Inl ShapeError
      | Some s \<Rightarrow>
          Inr \<lparr>shape = s,
               elems = (\<lambda>idx. if in_bounds s idx
                               then elems x (bidx (shape x) idx) + elems y (bidx (shape y) idx)
                               else 0)\<rparr>)"

subsection \<open>Convolution and batch normalisation\<close>

text \<open>
  \<^verbatim>\<open>nn.Conv2d(c_in, c_out, fs, padding=p)\<close>: stride 1, zero padding on both sides of
  each spatial dimension, a bias per output channel. An input \<open>(N, C, H, W)\<close> gives
  \<open>(N, c_out, H + 2p - fs + 1, W + 2p - fs + 1)\<close>.
\<close>

record Conv2d =
  in_channels :: nat
  out_channels :: nat
  kernel_size :: nat
  padding :: nat
  conv_weight :: "nat \<Rightarrow> nat \<Rightarrow> nat \<Rightarrow> nat \<Rightarrow> real"
  conv_bias :: "nat \<Rightarrow> real"

definition pad_read :: "tensor \<Rightarrow> nat \<Rightarrow> nat \<Rightarrow> nat \<Rightarrow> nat \<Rightarrow> nat \<Rightarrow> nat \<Rightarrow> nat \<Rightarrow> real" where
  "pad_read x H W p n c i j =
     (if p \<le> i \<and> i - p < H \<and> p \<le> j \<and> j - p < W then elems x [n, c, i - p, j - p] else 0)"

definition conv_at :: "Conv2d \<Rightarrow> tensor \<Rightarrow> nat \<Rightarrow> nat \<Rightarrow> nat \<Rightarrow> nat \<Rightarrow> nat \<Rightarrow> nat \<Rightarrow> real" where
  "conv_at m x H W n oc i j =
     conv_bias m oc +
     (\<Sum>c\<leftarrow>[0..<in_channels m]. \<Sum>di\<leftarrow>[0..<kernel_size m]. \<Sum>dj\<leftarrow>[0..<kernel_size m].
        conv_weight m oc c di dj * pad_read x H W (padding m) n c (i + di) (j + dj))"

definition Conv2d_forward :: "Conv2d \<Rightarrow> tensor \<Rightarrow> error + tensor" where
  "Conv2d_forward m x =
     (case shape x of
        [N, C, H, W] \<Rightarrow>
          if C \<noteq> in_channels m then Inl ShapeError
          else if kernel_size m = 0 \<or> H + 2 * padding m < kernel_size m
                  \<or> W + 2 * padding m < kernel_size m then Inl ShapeError
          else
            (let H' = H + 2 * padding m - kernel_size m + 1;
                 W' = W + 2 * padding m - kernel_size m + 1
             in Inr \<lparr>shape = [N, out_channels m, H', W'],
                     elems = (\<lambda>idx. case idx of
                                [n, oc, i, j] \<Rightarrow>
                                  if n < N \<and> oc < out_channels m \<and> i < H' \<and> j < W'
                                  then conv_at m x H W n oc i j else 0
                              | _ \<Rightarrow> 0)\<rparr>)
      | _ \<Rightarrow> Inl ShapeError)"

text \<open>
  \<^verbatim>\<open>nn.BatchNorm2d(c)\<close>: per channel, \<open>(v - mean) / sqrt (var + eps) * weight + bias\<close>.
  In training mode the mean and the (biased) variance are those of the batch, and an
  input with one value per channel is refused; in evaluation mode they are the running
  statistics. The update of the running statistics is a side effect on the module that
  no output of the same call depends on; it is not modelled.
\<close>

record BatchNorm2d =
  num_features :: nat
  bn_weight :: "nat \<Rightarrow> real"
  bn_bias :: "nat \<Rightarrow> real"
  running_mean :: "nat \<Rightarrow> real"
  running_var :: "nat \<Rightarrow> real"
  eps :: real
  training :: bool

definition batch_mean :: "tensor \<Rightarrow> nat \<Rightarrow> nat \<Rightarrow> nat \<Rightarrow> nat \<Rightarrow> real" where
  "batch_mean x N H W c =
     (\<Sum>n\<leftarrow>[0..<N]. \<Sum>i\<leftarrow>[0..<H]. \<Sum>j\<leftarrow>[0..<W]. elems x [n, c, i, j]) / real (N * H * W)"

definition batch_var :: "tensor \<Rightarrow> nat \<Rightarrow> nat \<Rightarrow> nat \<Rightarrow> nat \<Rightarrow> real" where
  "batch_var x N H W c =
     (\<Sum>n\<leftarrow>[0..<N]. \<Sum>i\<leftarrow>[0..<H]. \<Sum>j\<leftarrow>[0..<W].
        (elems x [n, c, i, j] - batch_mean x N H W c)\<^sup>2) / real (N * H * W)"

definition BatchNorm2d_forward :: "BatchNorm2d \<Rightarrow> tensor \<Rightarrow> error + tensor" where
  "BatchNorm2d_forward m x =
     (case shape x of
        [N, C, H, W] \<Rightarrow>
          if training m \<and> N * H * W = 1 then Inl BatchStatError
          else if C \<noteq> num_features m then Inl ShapeError
          else
            Inr \<lparr>shape = [N, C, H, W],
                 elems = (\<lambda>idx. case idx of
                            [n, c, i, j] \<Rightarrow>
                              if n < N \<and> c < C \<and> i < H \<and> j < W
                              then
                                (let mu = (if training m then batch_mean x N H W c
                                           else running_mean m c);
                                     var = (if training m then batch_var x N H W c
                                            else running_var m c)
                                 in (elems x idx - mu) / sqrt (var + eps m) * bn_weight m c
                                    + bn_bias m c)
                              else 0
                          | _ \<Rightarrow> 0)\<rparr>
      | _ \<Rightarrow> Inl ShapeError)"

subsection \<open>Block\<close>

text \<open>
  \<^verbatim>\<open>
  class Block(nn.Module):
      def __init__(self,c_in,c_out,fs,p=0,rl = True):
          super().__init__()
          self.c_in, self.c_out, self.fs, self.rl = c_in, c_out, fs, rl
          self.conv = nn.Conv2d(self.c_in,self.c_out,self.fs,padding=p)
          self.norm, self.relu = nn.BatchNorm2d(self.c_out), nn.ReLU()

      def forward(self,x):
          return self.relu(self.norm(self.conv(x))) if self.rl else self.norm(self.conv(x))
  \<close>
  The constructor draws the convolution's weights at random and the optimizer changes
  them, together with the normalisation's parameters, statistics and mode. That mutable
  part is the argument \<open>st\<close> of the constructor below, so that a statement for every
  \<open>st\<close> covers a block at construction and after any number of updates.
\<close>

record Block_state =
  st_weight :: "nat \<Rightarrow> nat \<Rightarrow> nat \<Rightarrow> nat \<Rightarrow> real"
  st_bias :: "nat \<Rightarrow> real"
  st_gamma :: "nat \<Rightarrow> real"
  st_beta :: "nat \<Rightarrow> real"
  st_running_mean :: "nat \<Rightarrow> real"
  st_running_var :: "nat \<Rightarrow> real"
  st_training :: bool

record Block =
  c_in :: nat
  c_out :: nat
  fs :: nat
  rl :: pyflag
  conv :: Conv2d
  norm :: BatchNorm2d

definition Block_init :: "nat \<Rightarrow> nat \<Rightarrow> nat \<Rightarrow> nat \<Rightarrow> pyflag \<Rightarrow> Block_state \<Rightarrow> Block" where
  "Block_init ci co k p r st =
     \<lparr>c_in = ci, c_out = co, fs = k, rl = r,
      conv = \<lparr>in_channels = ci, out_channels = co, kernel_size = k, padding = p,
              conv_weight = st_weight st, conv_bias = st_bias st\<rparr>,
      norm = \<lparr>num_features = co, bn_weight = st_gamma st, bn_bias = st_beta st,
              running_mean = st_running_mean st, running_var = st_running_var st,
              eps = 1 / 100000, training = st_training st\<rparr>\<rparr>"

definition Block_forward :: "Block \<Rightarrow> tensor \<Rightarrow> error + tensor" where
  "Block_forward blk x =
     (if truthy (rl blk)
      then (case Conv2d_forward (conv blk) x of
              Inl e \<Rightarrow> Inl e
            | Inr u \<Rightarrow> (case BatchNorm2d_forward (norm blk) u of
                          Inl e \<Rightarrow> Inl e
                        | Inr v \<Rightarrow> Inr (relu_t v)))
      else (case Conv2d_forward (conv blk) x of
              Inl e \<Rightarrow> Inl e
            | Inr u \<Rightarrow> BatchNorm2d_forward (norm blk) u))"

subsection \<open>ResBlock and AltBlock\<close>

text \<open>
  \<^verbatim>\<open>
  class ResBlock(nn.Module):
      def __init__(self,nc,fs):
          super().__init__()
          self.nc, self.fs = nc, fs
          self.a = Block(self.nc,self.nc,self.fs,p=1)
          self.b = Block(self.nc,self.nc,self.fs,rl=None,p=1)
          self.relu = nn.ReLU()

      def forward(self,x):
          y = self.a(self.b(x))
          return self.relu(x+y)
  \<close>
\<close>

record ResBlock =
  rb_nc :: nat
  rb_fs :: nat
  rb_a :: Block
  rb_b :: Block

definition ResBlock_init :: "nat \<Rightarrow> nat \<Rightarrow> Block_state \<Rightarrow> Block_state \<Rightarrow> ResBlock" where
  "ResBlock_init n k sa sb =
     \<lparr>rb_nc = n, rb_fs = k,
      rb_a = Block_init n n k 1 (PyBool True) sa,
      rb_b = Block_init n n k 1 PyNone sb\<rparr>"

definition ResBlock_forward :: "ResBlock \<Rightarrow> tensor \<Rightarrow> error + tensor" where
  "ResBlock_forward m x =
     (case Block_forward (rb_b m) x of
        Inl e \<Rightarrow> Inl e
      | Inr u \<Rightarrow>
          (case Block_forward (rb_a m) u of
             Inl e \<Rightarrow> Inl e
           | Inr y \<Rightarrow> (case add_t x y of Inl e \<Rightarrow> Inl e | Inr s \<Rightarrow> Inr (relu_t s))))"

text \<open>
  \<^verbatim>\<open>
  class AltBlock(nn.Module):
      def __init__(self,nc,fs1,fs2):
          super().__init__()
          self.nc, self.fs1, self.fs2 = nc, fs1, fs2
          self.a = Block(self.nc,self.nc,self.fs1)
          self.b = Block(self.nc,self.nc,self.fs1, rl = None)
          self.c = Block(self.nc,self.nc,self.fs2, rl = None)
          self.relu = nn.ReLU()

      def forward(self,x):
          y = self.a(self.b(x))
          z = self.c(x)
          return self.relu(y+z)
  \<close>
\<close>

record AltBlock =
  ab_nc :: nat
  ab_fs1 :: nat
  ab_fs2 :: nat
  ab_a :: Block
  ab_b :: Block
  ab_c :: Block

definition AltBlock_init ::
  "nat \<Rightarrow> nat \<Rightarrow> nat \<Rightarrow> Block_state \<Rightarrow> Block_state \<Rightarrow> Block_state \<Rightarrow> AltBlock" where
  "AltBlock_init n k1 k2 sa sb sc =
     \<lparr>ab_nc = n, ab_fs1 = k1, ab_fs2 = k2,
      ab_a = Block_init n n k1 0 (PyBool True) sa,
      ab_b = Block_init n n k1 0 PyNone sb,
      ab_c = Block_init n n k2 0 PyNone sc\<rparr>"

definition AltBlock_path_A :: "AltBlock \<Rightarrow> tensor \<Rightarrow> error + tensor" where
  "AltBlock_path_A m x =
     (case Block_forward (ab_b m) x of Inl e \<Rightarrow> Inl e | Inr u \<Rightarrow> Block_forward (ab_a m) u)"

definition AltBlock_path_B :: "AltBlock \<Rightarrow> tensor \<Rightarrow> error + tensor" where
  "AltBlock_path_B m x = Block_forward (ab_c m) x"

definition AltBlock_forward :: "AltBlock \<Rightarrow> tensor \<Rightarrow> error + tensor" where
  "AltBlock_forward m x =
     (case AltBlock_path_A m x of
        Inl e \<Rightarrow> Inl e
      | Inr y \<Rightarrow>
          (case AltBlock_path_B m x of
             Inl e \<Rightarrow> Inl e
           | Inr z \<Rightarrow> (case add_t y z of Inl e \<Rightarrow> Inl e | Inr s \<Rightarrow> Inr (relu_t s))))"

subsection \<open>The classification head and \<^verbatim>\<open>nn.Sequential\<close>\<close>

text \<open>
  \<^verbatim>\<open>nn.AdaptiveAvgPool2d(o)\<close> averages, for output position \<open>i\<close> of a dimension of
  size \<open>H\<close>, the inputs from \<open>floor (i * H / o)\<close> up to \<open>ceil ((i + 1) * H / o)\<close>; with
  \<open>o = 1\<close> that is the whole dimension. In the networks it always follows a block, so
  only four-dimensional inputs are modelled.
\<close>

definition pool_start :: "nat \<Rightarrow> nat \<Rightarrow> nat \<Rightarrow> nat" where
  "pool_start H out i = (i * H) div out"

definition pool_end :: "nat \<Rightarrow> nat \<Rightarrow> nat \<Rightarrow> nat" where
  "pool_end H out i = ((i + 1) * H + out - 1) div out"

definition AdaptiveAvgPool2d_forward :: "nat \<Rightarrow> tensor \<Rightarrow> error + tensor" where
  "AdaptiveAvgPool2d_forward out x =
     (case shape x of
        [N, C, H, W] \<Rightarrow>
          if C = 0 \<or> H = 0 \<or> W = 0 then Inl ShapeError
          else
            Inr \<lparr>shape = [N, C, out, out],
                 elems = (\<lambda>idx. case idx of
                            [n, c, i, j] \<Rightarrow>
                              if n < N \<and> c < C \<and> i < out \<and> j < out
                              then (\<Sum>a\<leftarrow>[pool_start H out i..<pool_end H out i].
                                      \<Sum>b\<leftarrow>[pool_start W out j..<pool_end W out j].
                                        elems x [n, c, a, b])
                                   / real ((pool_end H out i - pool_start H out i)
                                           * (pool_end W out j - pool_start W out j))
                              else 0
                          | _ \<Rightarrow> 0)\<rparr>
      | _ \<Rightarrow> Inl ShapeError)"

text \<open>\<^verbatim>\<open>nn.Flatten()\<close> keeps the first dimension and merges the others, row-major.\<close>

fun unravel :: "nat list \<Rightarrow> nat \<Rightarrow> nat list" where
  "unravel [] k = []"
| "unravel (d # ds) k = (k div prod_list ds) # unravel ds (k mod prod_list ds)"

definition Flatten_forward :: "tensor \<Rightarrow> error + tensor" where
  "Flatten_forward x =
     (case shape x of
        N # d # ds \<Rightarrow>
          Inr \<lparr>shape = [N, prod_list (d # ds)],
               elems = (\<lambda>idx. case idx of
                          [n, k] \<Rightarrow>
                            if n < N \<and> k < prod_list (d # ds)
                            then elems x (n # unravel (d # ds) k) else 0
                        | _ \<Rightarrow> 0)\<rparr>
      | _ \<Rightarrow> Inl ShapeError)"

text \<open>\<^verbatim>\<open>nn.Linear(i, o)\<close> acts on the last dimension, which must have size \<open>i\<close>.\<close>

record Linear =
  in_features :: nat
  out_features :: nat
  lin_weight :: "nat \<Rightarrow> nat \<Rightarrow> real"
  lin_bias :: "nat \<Rightarrow> real"

definition Linear_forward :: "Linear \<Rightarrow> tensor \<Rightarrow> error + tensor" where
  "Linear_forward m x =
     (if shape x = [] \<or> last (shape x) \<noteq> in_features m then Inl ShapeError
      else
        (let s = butlast (shape x) @ [out_features m]
         in Inr \<lparr>shape = s,
                 elems = (\<lambda>idx. if in_bounds s idx
                                 then lin_bias m (last idx)
                                      + (\<Sum>i\<leftarrow>[0..<in_features m].
                                           elems x (butlast idx @ [i]) * lin_weight m (last idx) i)
                                 else 0)\<rparr>))"

datatype layer =
    Seq_Block Block
  | Seq_ResBlock ResBlock
  | Seq_AltBlock AltBlock
  | Seq_AdaptiveAvgPool2d nat
  | Seq_Flatten
  | Seq_Linear Linear

fun layer_forward :: "layer \<Rightarrow> tensor \<Rightarrow> error + tensor" where
  "layer_forward (Seq_Block m) x = Block_forward m x"
| "layer_forward (Seq_ResBlock m) x = ResBlock_forward m x"
| "layer_forward (Seq_AltBlock m) x = AltBlock_forward m x"
| "layer_forward (Seq_AdaptiveAvgPool2d out) x = AdaptiveAvgPool2d_forward out x"
| "layer_forward Seq_Flatten x = Flatten_forward x"
| "layer_forward (Seq_Linear m) x = Linear_forward m x"

fun Sequential_forward :: "layer list \<Rightarrow> tensor \<Rightarrow> error + tensor" where
  "Sequential_forward [] x = Inr x"
| "Sequential_forward (l # ls) x =
     (case layer_forward l x of Inl e \<Rightarrow> Inl e | Inr y \<Rightarrow> Sequential_forward ls y)"

text \<open>
  \<^verbatim>\<open>
  net0 = nn.Sequential(Block(3,6,5),
                       Block(6,16,3),
                       Block(16,16,3),
                       Block(16,16,3),
                       Block(16,32,3),
                       Block(32,32,3),
                       Block(32,32,3),
                       Block(32,64,3),
                       Block(64,64,3),
                       Block(64,64,3),
                       nn.AdaptiveAvgPool2d(1),
                       nn.Flatten(),
                       nn.Linear(64,10)
                       )
  \<close>
  The state of the \<open>i\<close>-th block is \<open>st i\<close>; \<open>lw\<close> and \<open>lb\<close> are the weight and the bias
  of the linear layer.
\<close>

definition net0 :: "(nat \<Rightarrow> Block_state) \<Rightarrow> (nat \<Rightarrow> nat \<Rightarrow> real) \<Rightarrow> (nat \<Rightarrow> real) \<Rightarrow> layer list" where
  "net0 st lw lb =
     [Seq_Block (Block_init 3 6 5 0 (PyBool True) (st 0)),
      Seq_Block (Block_init 6 16 3 0 (PyBool True) (st 1)),
      Seq_Block (Block_init 16 16 3 0 (PyBool True) (st 2)),
      Seq_Block (Block_init 16 16 3 0 (PyBool True) (st 3)),
      Seq_Block (Block_init 16 32 3 0 (PyBool True) (st 4)),
      Seq_Block (Block_init 32 32 3 0 (PyBool True) (st 5)),
      Seq_Block (Block_init 32 32 3 0 (PyBool True) (st 6)),
      Seq_Block (Block_init 32 64 3 0 (PyBool True) (st 7)),
      Seq_Block (Block_init 64 64 3 0 (PyBool True) (st 8)),
      Seq_Block (Block_init 64 64 3 0 (PyBool True) (st 9)),
      Seq_AdaptiveAvgPool2d 1,
      Seq_Flatten,
      Seq_Linear \<lparr>in_features = 64, out_features = 10, lin_weight = lw, lin_bias = lb\<rparr>]"

text \<open>
  \<^verbatim>\<open>
  net3 = nn.Sequential(Block(3,6,5),
                       Block(6,16,3),
                       AltBlock(16,3,5),
                       Block(16,32,3),
                       AltBlock(32,3,5),
                       Block(32,64,3),
                       AltBlock(64,3,5),
                       nn.AdaptiveAvgPool2d(1),
                       nn.Flatten(),
                       nn.Linear(64,10))
  \<close>
  An \<^verbatim>\<open>AltBlock\<close> owns three blocks; the one at position \<open>i\<close> takes the states
  \<open>st i 0\<close>, \<open>st i 1\<close>, \<open>st i 2\<close>, a plain block the state \<open>st i 0\<close>.
\<close>

definition net3 ::
  "(nat \<Rightarrow> nat \<Rightarrow> Block_state) \<Rightarrow> (nat \<Rightarrow> nat \<Rightarrow> real) \<Rightarrow> (nat \<Rightarrow> real) \<Rightarrow> layer list" where
  "net3 st lw lb =
     [Seq_Block (Block_init 3 6 5 0 (PyBool True) (st 0 0)),
      Seq_Block (Block_init 6 16 3 0 (PyBool True) (st 1 0)),
      Seq_AltBlock (AltBlock_init 16 3 5 (st 2 0) (st 2 1) (st 2 2)),
      Seq_Block (Block_init 16 32 3 0 (PyBool True) (st 3 0)),
      Seq_AltBlock (AltBlock_init 32 3 5 (st 4 0) (st 4 1) (st 4 2)),
      Seq_Block (Block_init 32 64 3 0 (PyBool True) (st 5 0)),
      Seq_AltBlock (AltBlock_init 64 3 5 (st 6 0) (st 6 1) (st 6 2)),
      Seq_AdaptiveAvgPool2d 1,
      Seq_Flatten,
      Seq_Linear \<lparr>in_features = 64, out_features = 10, lin_weight = lw, lin_bias = lb\<rparr>]"

subsection \<open>Data loaders\<close>

text \<open>
  \<^verbatim>\<open>
  bs = 128
  trainset = torchvision.datasets.CIFAR10(root='./data', train=True, ...)
  trainloader = torch.utils.data.DataLoader(trainset, batch_size=bs,
                                            shuffle=True, num_workers=4)
  testset = torchvision.datasets.CIFAR10(root='./data', train=False, ...)
  testloader = torch.utils.data.DataLoader(testset, batch_size=bs,
                                           shuffle=False, num_workers=4)
  \<close>
  A dataset is a list of (image, label) pairs. A loader walks an order of indices (a
  fresh random permutation when \<open>shuffle\<close> is set, \<open>0, 1, ...\<close> otherwise), cuts it into
  batches of \<open>batch_size\<close> indices, the last one possibly shorter, and fetches and
  collates each batch when the loop asks for it. \<open>batch_sampler\<close> follows the
  library's \<^verbatim>\<open>BatchSampler.__iter__\<close> with \<^verbatim>\<open>drop_last=False\<close>, \<open>loader_len\<close> its
  \<^verbatim>\<open>__len__\<close>.
\<close>

record 'x DataLoader =
  dataset :: "('x \<times> int) list"
  batch_size :: nat
  shuffle :: bool

fun batch_sampler :: "nat \<Rightarrow> 'a list \<Rightarrow> 'a list \<Rightarrow> 'a list list" where
  "batch_sampler n batch [] = (if batch \<noteq> [] then [batch] else [])"
| "batch_sampler n batch (i # rest) =
     (if length (batch @ [i]) = n then (batch @ [i]) # batch_sampler n [] rest
      else batch_sampler n (batch @ [i]) rest)"

definition loader_len :: "'x DataLoader \<Rightarrow> nat" where
  "loader_len L = (length (dataset L) + batch_size L - 1) div batch_size L"

definition fetch :: "('x \<times> int) list \<Rightarrow> nat list \<Rightarrow> error + ('x list \<times> int list)" where
  "fetch ds idxs =
     (if list_all (\<lambda>i. i < length ds) idxs
      then Inr (map (\<lambda>i. fst (ds ! i)) idxs, map (\<lambda>i. snd (ds ! i)) idxs)
      else Inl IndexError)"

record 'x globals =
  bs :: nat
  trainset :: "('x \<times> int) list"
  testset :: "('x \<times> int) list"

definition trainloader :: "'x globals \<Rightarrow> 'x DataLoader" where
  "trainloader G = \<lparr>dataset = trainset G, batch_size = bs G, shuffle = True\<rparr>"

definition testloader :: "'x globals \<Rightarrow> 'x DataLoader" where
  "testloader G = \<lparr>dataset = testset G, batch_size = bs G, shuffle = False\<rparr>"

subsection \<open>The collaborators of the training loop\<close>

text \<open>
  \<^verbatim>\<open>train_loop\<close> receives the model, the optimizer and the criterion as arguments and
  only calls them. Their effects (parameters, gradients, optimizer moments, the random
  generator, the autograd switch) live in a state \<open>'w\<close> that every call may read and
  change, and every call may raise. A model output is a list of rows of class scores;
  \<open>'l\<close> is the type of a loss object.
\<close>

type_synonym logits = "real list list"

record ('w, 'x, 'l) torch_env =
  model_train :: "'w \<Rightarrow> error + (unit \<times> 'w)"
  model_eval :: "'w \<Rightarrow> error + (unit \<times> 'w)"
  model_call :: "'x list \<Rightarrow> 'w \<Rightarrow> error + (logits \<times> 'w)"
  criterion :: "logits \<Rightarrow> int list \<Rightarrow> 'w \<Rightarrow> error + ('l \<times> 'w)"
  loss_backward :: "'l \<Rightarrow> 'w \<Rightarrow> error + (unit \<times> 'w)"
  loss_item :: "'l \<Rightarrow> real"
  optimizer_zero_grad :: "'w \<Rightarrow> error + (unit \<times> 'w)"
  optimizer_step :: "'w \<Rightarrow> error + (unit \<times> 'w)"
  no_grad_enter :: "'w \<Rightarrow> error + (unit \<times> 'w)"
  no_grad_exit :: "'w \<Rightarrow> error + (unit \<times> 'w)"
  randperm :: "nat \<Rightarrow> 'w \<Rightarrow> error + (nat list \<times> 'w)"

definition ret :: "'a \<Rightarrow> 'w \<Rightarrow> error + ('a \<times> 'w)" where
  "ret a w = Inr (a, w)"

definition and_then ::
  "('w \<Rightarrow> error + ('a \<times> 'w)) \<Rightarrow> ('a \<Rightarrow> 'w \<Rightarrow> error + ('b \<times> 'w)) \<Rightarrow> 'w \<Rightarrow> error + ('b \<times> 'w)" where
  "and_then m f w = (case m w of Inl e \<Rightarrow> Inl e | Inr (a, w') \<Rightarrow> f a w')"

definition lift_result :: "error + 'a \<Rightarrow> 'w \<Rightarrow> error + ('a \<times> 'w)" where
  "lift_result r w = (case r of Inl e \<Rightarrow> Inl e | Inr a \<Rightarrow> Inr (a, w))"

definition loader_iter ::
  "('w, 'x, 'l) torch_env \<Rightarrow> 'x DataLoader \<Rightarrow> 'w \<Rightarrow> error + (nat list list \<times> 'w)" where
  "loader_iter E L =
     and_then (if shuffle L then randperm E (length (dataset L))
               else ret [0..<length (dataset L)])
       (\<lambda>order. ret (batch_sampler (batch_size L) [] order))"

subsection \<open>Predictions and the count of correct ones\<close>

text \<open>
  \<^verbatim>\<open>_, pred = nn.Softmax(-1)(out).max(-1)\<close> and
  \<^verbatim>\<open>(pred == lab.cuda()).sum().item()\<close>. The maximum of a row with its index is the
  first position that holds the largest value; a row without scores has no maximum and
  the library raises. The comparison broadcasts a one-element operand.
\<close>

definition softmax :: "real list \<Rightarrow> real list" where
  "softmax row = map (\<lambda>v. exp v / (\<Sum>u\<leftarrow>row. exp u)) row"

fun max_with_index :: "real list \<Rightarrow> (real \<times> nat) option" where
  "max_with_index [] = None"
| "max_with_index (v # vs) =
     (case max_with_index vs of
        None \<Rightarrow> Some (v, 0)
      | Some (m, i) \<Rightarrow> if v < m then Some (m, Suc i) else Some (v, 0))"

fun max_last :: "logits \<Rightarrow> error + (real list \<times> nat list)" where
  "max_last [] = Inr ([], [])"
| "max_last (row # rows) =
     (case max_with_index row of
        None \<Rightarrow> Inl ShapeError
      | Some (m, i) \<Rightarrow>
          (case max_last rows of Inl e \<Rightarrow> Inl e | Inr (ms, is) \<Rightarrow> Inr (m # ms, i # is)))"

definition eq_t :: "nat list \<Rightarrow> int list \<Rightarrow> error + bool list" where
  "eq_t pred lab =
     (if length pred = length lab then Inr (map2 (\<lambda>p l. int p = l) pred lab)
      else if length pred = 1 then Inr (map (\<lambda>l. int (pred ! 0) = l) lab)
      else if length lab = 1 then Inr (map (\<lambda>p. int p = lab ! 0) pred)
      else Inl ShapeError)"

definition sum_item :: "bool list \<Rightarrow> int" where
  "sum_item flags = int (length (filter (\<lambda>b. b) flags))"

definition py_truediv :: "real \<Rightarrow> real \<Rightarrow> error + real" where
  "py_truediv a b = (if b = 0 then Inl ZeroDivisionError else Inr (a / b))"

subsection \<open>The criterion the notebook passes\<close>

text \<open>
  \<^verbatim>\<open>get_results\<close> calls \<^verbatim>\<open>train_loop\<close> with \<^verbatim>\<open>criterion = nn.CrossEntropyLoss()\<close>: the mean
  over the batch of \<open>ln (\<Sum>u\<leftarrow>row. exp u) - row ! label\<close>. A batch whose rows and labels
  differ in number, or a label that is not a class index, is refused. (For an empty
  batch, which no loader delivers, the library's mean is not a number; here the quotient
  is HOL's.)
\<close>

definition nll :: "real list \<times> int \<Rightarrow> real" where
  "nll = (\<lambda>(row, label). ln (\<Sum>u\<leftarrow>row. exp u) - row ! nat label)"

definition CrossEntropyLoss :: "logits \<Rightarrow> int list \<Rightarrow> error + real" where
  "CrossEntropyLoss out lab =
     (if length out \<noteq> length lab then Inl ShapeError
      else if \<not> list_all (\<lambda>(row, label). 0 \<le> label \<and> nat label < length row) (zip out lab)
      then Inl IndexError
      else Inr ((\<Sum>e\<leftarrow>zip out lab. nll e) / real (length out)))"

subsection \<open>train_loop\<close>

text \<open>
  \<^verbatim>\<open>
  def train_loop(model, optimizer, criterion, epochs):
      metrics = []
      for _ in range(epochs):
          current = 0
          model.train()
          for img, lab in trainloader:
              optimizer.zero_grad()
              out = model(img.float().cuda())
              loss = criterion(out, lab.cuda())
              loss.backward()
              optimizer.step()
              current += loss.item()
          train_loss = current / len(trainloader)
          with torch.no_grad():
              current, acc = 0, 0
              model.eval()
              for img, lab in testloader:
                  out = model(img.float().cuda())
                  loss = criterion(out, lab.cuda())
                  current += loss.item()
                  _, pred = nn.Softmax(-1)(out).max(-1)
                  acc += (pred == lab.cuda()).sum().item()
              valid_loss = current / len(testloader)
              accuracy = 100 * acc / len(testset)
          metrics.append([train_loss,valid_loss,accuracy])
      return np.array(metrics)
  \<close>
  The two inner loops are \<open>train_batches\<close> and \<open>eval_batches\<close>, over the batches of
  indices the loader still has to deliver; \<open>training_phase\<close> and \<open>evaluation_phase\<close> are
  the two halves of the body of the outer loop, \<open>train_epochs\<close> the outer loop. Moving
  a tensor to the device changes no value and is left out.
\<close>

fun train_batches ::
  "('w, 'x, 'l) torch_env \<Rightarrow> ('x \<times> int) list \<Rightarrow> nat list list \<Rightarrow> real \<Rightarrow> 'w \<Rightarrow> error + (real \<times> 'w)" where
  "train_batches E ds [] current = ret current"
| "train_batches E ds (idxs # rest) current =
     and_then (lift_result (fetch ds idxs)) (\<lambda>(img, lab).
     and_then (optimizer_zero_grad E) (\<lambda>_.
     and_then (model_call E img) (\<lambda>out.
     and_then (criterion E out lab) (\<lambda>loss.
     and_then (loss_backward E loss) (\<lambda>_.
     and_then (optimizer_step E) (\<lambda>_.
     train_batches E ds rest (current + loss_item E loss)))))))"

fun eval_batches ::
  "('w, 'x, 'l) torch_env \<Rightarrow> ('x \<times> int) list \<Rightarrow> nat list list \<Rightarrow> real \<Rightarrow> int \<Rightarrow> 'w
     \<Rightarrow> error + ((real \<times> int) \<times> 'w)" where
  "eval_batches E ds [] current acc = ret (current, acc)"
| "eval_batches E ds (idxs # rest) current acc =
     and_then (lift_result (fetch ds idxs)) (\<lambda>(img, lab).
     and_then (model_call E img) (\<lambda>out.
     and_then (criterion E out lab) (\<lambda>loss.
     and_then (lift_result (max_last (map softmax out))) (\<lambda>(_, pred).
     and_then (lift_result (eq_t pred lab)) (\<lambda>flags.
     eval_batches E ds rest (current + loss_item E loss) (acc + sum_item flags))))))"

definition training_phase :: "('w, 'x, 'l) torch_env \<Rightarrow> 'x globals \<Rightarrow> 'w \<Rightarrow> error + (real \<times> 'w)" where
  "training_phase E G =
     and_then (model_train E) (\<lambda>_.
     and_then (loader_iter E (trainloader G)) (\<lambda>batches.
     and_then (train_batches E (trainset G) batches 0) (\<lambda>current.
     lift_result (py_truediv current (real (loader_len (trainloader G)))))))"

definition evaluation_phase ::
  "('w, 'x, 'l) torch_env \<Rightarrow> 'x globals \<Rightarrow> 'w \<Rightarrow> error + ((real \<times> real) \<times> 'w)" where
  "evaluation_phase E G =
     and_then (no_grad_enter E) (\<lambda>_.
     and_then (model_eval E) (\<lambda>_.
     and_then (loader_iter E (testloader G)) (\<lambda>batches.
     and_then (eval_batches E (testset G) batches 0 0) (\<lambda>(current, acc).
     and_then (lift_result (py_truediv current (real (loader_len (testloader G))))) (\<lambda>valid_loss.
     and_then (lift_result (py_truediv (real_of_int (100 * acc)) (real (length (testset G)))))
       (\<lambda>accuracy.
     and_then (no_grad_exit E) (\<lambda>_.
     ret (valid_loss, accuracy))))))))"

definition train_epoch ::
  "('w, 'x, 'l) torch_env \<Rightarrow> 'x globals \<Rightarrow> 'w \<Rightarrow> error + ((real \<times> real \<times> real) \<times> 'w)" where
  "train_epoch E G =
     and_then (training_phase E G) (\<lambda>train_loss.
     and_then (evaluation_phase E G) (\<lambda>(valid_loss, accuracy).
     ret (train_loss, valid_loss, accuracy)))"

fun train_epochs ::
  "('w, 'x, 'l) torch_env \<Rightarrow> 'x globals \<Rightarrow> nat \<Rightarrow> (real \<times> real \<times> real) list \<Rightarrow> 'w
     \<Rightarrow> error + ((real \<times> real \<times> real) list \<times> 'w)" where
  "train_epochs E G 0 metrics = ret metrics"
| "train_epochs E G (Suc n) metrics =
     and_then (train_epoch E G) (\<lambda>m. train_epochs E G n (metrics @ [m]))"

definition train_loop ::
  "('w, 'x, 'l) torch_env \<Rightarrow> 'x globals \<Rightarrow> int \<Rightarrow> 'w \<Rightarrow> error + ((real \<times> real \<times> real) list \<times> 'w)" where
  "train_loop E G epochs = train_epochs E G (nat epochs) []"

subsection \<open>Recording the calls\<close>

text \<open>
  To state in which order the loop calls its collaborators, each call is recorded: the
  environment \<open>traced E\<close> behaves as \<open>E\<close> on its own state and appends one event per
  successful call to a log kept beside it.
\<close>

datatype 'x event =
    EvModelTrain
  | EvModelEval
  | EvZeroGrad
  | EvModelCall "'x list" logits
  | EvCriterion logits "int list" real
  | EvBackward
  | EvStep
  | EvNoGradEnter
  | EvNoGradExit
  | EvRandPerm nat "nat list"

definition logged ::
  "('a \<Rightarrow> 'x event) \<Rightarrow> ('w \<Rightarrow> error + ('a \<times> 'w)) \<Rightarrow> 'w \<times> 'x event list
     \<Rightarrow> error + ('a \<times> ('w \<times> 'x event list))" where
  "logged ev f = (\<lambda>(w, log). case f w of Inl e \<Rightarrow> Inl e | Inr (a, w') \<Rightarrow> Inr (a, (w', log @ [ev a])))"

definition traced :: "('w, 'x, 'l) torch_env \<Rightarrow> ('w \<times> 'x event list, 'x, 'l) torch_env" where
  "traced E =
     \<lparr>model_train = logged (\<lambda>_. EvModelTrain) (model_train E),
      model_eval = logged (\<lambda>_. EvModelEval) (model_eval E),
      model_call = (\<lambda>img. logged (\<lambda>out. EvModelCall img out) (model_call E img)),
      criterion = (\<lambda>out lab. logged (\<lambda>l. EvCriterion out lab (loss_item E l)) (criterion E out lab)),
      loss_backward = (\<lambda>l. logged (\<lambda>_. EvBackward) (loss_backward E l)),
      loss_item = loss_item E,
      optimizer_zero_grad = logged (\<lambda>_. EvZeroGrad) (optimizer_zero_grad E),
      optimizer_step = logged (\<lambda>_. EvStep) (optimizer_step E),
      no_grad_enter = logged (\<lambda>_. EvNoGradEnter) (no_grad_enter E),
      no_grad_exit = logged (\<lambda>_. EvNoGradExit) (no_grad_exit E),
      randperm = (\<lambda>n. logged (\<lambda>p. EvRandPerm n p) (randperm E n))\<rparr>"


text \<open>The events of one pass of the evaluation loop's body over the batch with indices
  \<open>idxs\<close>, when the model returned \<open>out\<close> and the loss had the value \<open>v\<close>.\<close>

definition eval_events :: "('x \<times> int) list \<Rightarrow> nat list \<times> logits \<times> real \<Rightarrow> 'x event list" where
  "eval_events ds = (\<lambda>(idxs, out, v).
     [EvModelCall (map (\<lambda>i. fst (ds ! i)) idxs) out,
      EvCriterion out (map (\<lambda>i. snd (ds ! i)) idxs) v])"

text \<open>A prediction is correct when the index of the largest softmax score is the label.\<close>

definition correct :: "real list \<times> int \<Rightarrow> bool" where
  "correct = (\<lambda>(row, label).
     case max_with_index (softmax row) of None \<Rightarrow> False | Some (m, i) \<Rightarrow> int i = label)"

text \<open>\<open>i\<close> is the first position of \<open>row\<close> that holds its largest value.\<close>

definition is_argmax :: "real list \<Rightarrow> nat \<Rightarrow> bool" where
  "is_argmax row i =
     (i < length row \<and> list_all (\<lambda>v. v \<le> row ! i) row \<and> list_all (\<lambda>v. v < row ! i) (take i row))"

subsection \<open>The blocks as the specification words them\<close>

text \<open>
  The specification describes the residual unit and path A of the branching unit as two
  blocks in sequence of which the second one applied has its activation disabled: the
  block \<^verbatim>\<open>a\<close> first, then the block \<^verbatim>\<open>b\<close>. The next two definitions follow those words;
  \<open>AltBlock_forward_swapped\<close> computes path B before path A.
\<close>

definition ResBlock_as_specified :: "ResBlock \<Rightarrow> tensor \<Rightarrow> error + tensor" where
  "ResBlock_as_specified m x =
     (case Block_forward (rb_a m) x of
        Inl e \<Rightarrow> Inl e
      | Inr u \<Rightarrow>
          (case Block_forward (rb_b m) u of
             Inl e \<Rightarrow> Inl e
           | Inr y \<Rightarrow> (case add_t x y of Inl e \<Rightarrow> Inl e | Inr s \<Rightarrow> Inr (relu_t s))))"

definition AltBlock_as_specified :: "AltBlock \<Rightarrow> tensor \<Rightarrow> error + tensor" where
  "AltBlock_as_specified m x =
     (case Block_forward (ab_a m) x of
        Inl e \<Rightarrow> Inl e
      | Inr u \<Rightarrow>
          (case Block_forward (ab_b m) u of
             Inl e \<Rightarrow> Inl e
           | Inr y \<Rightarrow>
               (case Block_forward (ab_c m) x of
                  Inl e \<Rightarrow> Inl e
                | Inr z \<Rightarrow> (case add_t y z of Inl e \<Rightarrow> Inl e | Inr s \<Rightarrow> Inr (relu_t s)))))"

definition AltBlock_forward_swapped :: "AltBlock \<Rightarrow> tensor \<Rightarrow> error + tensor" where
  "AltBlock_forward_swapped m x =
     (case AltBlock_path_B m x of
        Inl e \<Rightarrow> Inl e
      | Inr z \<Rightarrow>
          (case AltBlock_path_A m x of
             Inl e \<Rightarrow> Inl e
           | Inr y \<Rightarrow> (case add_t z y of Inl e \<Rightarrow> Inl e | Inr s \<Rightarrow> Inr (relu_t s))))"

definition zero_weights :: "Block_state \<Rightarrow> bool" where
  "zero_weights st =
     (st_weight st = (\<lambda>oc c di dj. 0) \<and> st_bias st = (\<lambda>oc. 0) \<and>
      st_gamma st = (\<lambda>c. 0) \<and> st_beta st = (\<lambda>c. 0))"

definition then_norm :: "BatchNorm2d \<Rightarrow> error + tensor \<Rightarrow> error + tensor" where
  "then_norm m r = (case r of Inl e \<Rightarrow> Inl e | Inr u \<Rightarrow> BatchNorm2d_forward m u)"

definition then_relu :: "error + tensor \<Rightarrow> error + tensor" where
  "then_relu r = (case r of Inl e \<Rightarrow> Inl e | Inr u \<Rightarrow> Inr (relu_t u))"

definition value_at :: "error + tensor \<Rightarrow> nat list \<Rightarrow> error + real" where
  "value_at r idx = (case r of Inl e \<Rightarrow> Inl e | Inr t \<Rightarrow> Inr (elems t idx))"

definition result_shape :: "error + tensor \<Rightarrow> error + nat list" where
  "result_shape r = (case r of Inl e \<Rightarrow> Inl e | Inr t \<Rightarrow> Inr (shape t))"

subsection \<open>Concrete inputs\<close>

text \<open>
  A block state whose convolution is zero and whose normalisation has weight \<open>0\<close> and
  bias \<open>v\<close>: the block maps every input to the constant \<open>v\<close> (to \<open>max 0 v\<close> with the
  activation). \<open>mode\<close> is the training flag.
\<close>

definition beta_state :: "real \<Rightarrow> bool \<Rightarrow> Block_state" where
  "beta_state v mode =
     \<lparr>st_weight = (\<lambda>oc c di dj. 0), st_bias = (\<lambda>oc. 0), st_gamma = (\<lambda>c. 0),
      st_beta = (\<lambda>c. v), st_running_mean = (\<lambda>c. 0), st_running_var = (\<lambda>c. 1),
      st_training = mode\<rparr>"

text \<open>
  Collaborators for a run on three examples: the model returns its input rows as scores,
  the loss of a batch is its number of labels, every other call only counts the
  optimizer's steps in the state, and the shuffled order is the reversed one.
\<close>

definition toy_env :: "(nat, real list, real) torch_env" where
  "toy_env =
     \<lparr>model_train = ret (), model_eval = ret (),
      model_call = (\<lambda>img. ret img),
      criterion = (\<lambda>out lab. ret (real (length lab))),
      loss_backward = (\<lambda>l. ret ()),
      loss_item = (\<lambda>l. l),
      optimizer_zero_grad = ret (),
      optimizer_step = (\<lambda>w. Inr ((), Suc w)),
      no_grad_enter = ret (), no_grad_exit = ret (),
      randperm = (\<lambda>n. ret (rev [0..<n]))\<rparr>"

definition toy_globals :: "real list globals" where
  "toy_globals =
     \<lparr>bs = 2,
      trainset = [([1, 0], 0), ([0, 1], 1), ([2, 3], 1)],
      testset = [([1, 0], 0), ([0, 1], 0), ([0, 5], 1)]\<rparr>"

text \<open>
  A block state in evaluation mode whose convolution sums the nine inputs under the
  kernel and whose normalisation maps \<open>v\<close> to \<open>1 - 2 * v\<close> (the running variance plus
  \<open>eps\<close> is \<open>1\<close>).
\<close>

definition box_state :: Block_state where
  "box_state =
     \<lparr>st_weight = (\<lambda>oc c di dj. 1), st_bias = (\<lambda>oc. 0), st_gamma = (\<lambda>c. - 2),
      st_beta = (\<lambda>c. 1), st_running_mean = (\<lambda>c. 0), st_running_var = (\<lambda>c. 99999 / 100000),
      st_training = False\<rparr>"

text \<open>A two by two image with one negative entry.\<close>

definition sample_image :: tensor where
  "sample_image =
     \<lparr>shape = [1, 1, 2, 2],
      elems = (\<lambda>idx. if in_bounds [1, 1, 2, 2] idx
                      then (if idx = [0, 0, 0, 0] then - 3 else 2) else 0)\<rparr>"

text \<open>The state of a block right after construction, in training mode, with every
  convolution weight drawn as \<open>1 / 10\<close>.\<close>

definition fresh_state :: Block_state where
  "fresh_state =
     \<lparr>st_weight = (\<lambda>oc c di dj. 1 / 10), st_bias = (\<lambda>oc. 0), st_gamma = (\<lambda>c. 1),
      st_beta = (\<lambda>c. 0), st_running_mean = (\<lambda>c. 0), st_running_var = (\<lambda>c. 1),
      st_training = True\<rparr>"


definition toy_eval_trace :: "real list event list" where
  "toy_eval_trace =
     [EvNoGradEnter, EvModelEval,
      EvModelCall [[1, 0], [0, 1]] [[1, 0], [0, 1]],
      EvCriterion [[1, 0], [0, 1]] [0, 0] 2,
      EvModelCall [[0, 5]] [[0, 5]],
      EvCriterion [[0, 5]] [1] 1,
      EvNoGradExit]"

section \<open>Properties\<close>

subsection \<open>Shapes and broadcasting\<close>

lemma broadcast_dim_comm: "broadcast_dim a b = broadcast_dim b a"
  by (auto simp: broadcast_dim_def)

lemma broadcast_rev_comm: "broadcast_rev xs ys = broadcast_rev ys xs"
proof (induction xs ys rule: broadcast_rev.induct)
  case (1 ys)
  then show ?case by (cases ys) auto
next
  case (2 x xs)
  then show ?case by simp
next
  case (3 x xs y ys)
  then show ?case by (simp add: broadcast_dim_comm[of x y] split: option.splits)
qed

lemma broadcast_shapes_comm: "broadcast_shapes s t = broadcast_shapes t s"
  by (simp add: broadcast_shapes_def broadcast_rev_comm)

lemma add_t_comm: "add_t x y = add_t y x"
  by (auto simp: add_t_def broadcast_shapes_comm[of "shape x"] add.commute split: option.splits intro!: ext)

lemma broadcast_rev_same: "broadcast_rev xs xs = Some xs"
  by (induction xs) (auto simp: broadcast_dim_def)

lemma broadcast_shapes_same: "broadcast_shapes s s = Some s"
  by (simp add: broadcast_shapes_def broadcast_rev_same)

lemma map2_bidx:
  "list_all2 (<) idx s \<Longrightarrow> map2 (\<lambda>d i. if d = 1 then 0 else i) s idx = (idx :: nat list)"
  by (induction idx s rule: list_all2_induct) auto

lemma bidx_in_bounds: "in_bounds s idx \<Longrightarrow> bidx s idx = idx"
  unfolding in_bounds_def bidx_def
  by (frule list_all2_lengthD) (simp del: One_nat_def add: map2_bidx)

lemma in_bounds4:
  "in_bounds [N, C, H, W] idx \<longleftrightarrow> (\<exists>n c i j. idx = [n, c, i, j] \<and> n < N \<and> c < C \<and> i < H \<and> j < W)"
  by (auto simp: in_bounds_def list_all2_Cons2)

lemma Conv2d_forward_shape:
  assumes "shape x = [N, C, H, W]" "C = in_channels m" "0 < kernel_size m"
    "kernel_size m \<le> H + 2 * padding m" "kernel_size m \<le> W + 2 * padding m"
  shows "\<exists>y. Conv2d_forward m x = Inr y \<and>
           shape y = [N, out_channels m, H + 2 * padding m - kernel_size m + 1,
                      W + 2 * padding m - kernel_size m + 1] \<and> wf_tensor y"
  using assms by (auto simp: Conv2d_forward_def Let_def wf_tensor_def in_bounds4 split: list.splits)

lemma BatchNorm2d_forward_shape:
  assumes "shape x = [N, C, H, W]" "C = num_features m" "training m \<longrightarrow> N * H * W \<noteq> 1"
  shows "\<exists>y. BatchNorm2d_forward m x = Inr y \<and> shape y = [N, C, H, W] \<and> wf_tensor y"
  using assms by (auto simp: BatchNorm2d_forward_def Let_def wf_tensor_def in_bounds4 split: list.splits)

lemma relu_t_shape [simp]: "shape (relu_t x) = shape x"
  by (simp add: relu_t_def)

lemma wf_relu_t: "wf_tensor x \<Longrightarrow> wf_tensor (relu_t x)"
  by (simp add: wf_tensor_def relu_t_def)

lemma Block_forward_shape:
  assumes "shape x = [N, ci, H, W]" "0 < k" "k \<le> H + 2 * p" "k \<le> W + 2 * p"
    "st_training st \<longrightarrow> N * (H + 2 * p - k + 1) * (W + 2 * p - k + 1) \<noteq> 1"
  shows "\<exists>y. Block_forward (Block_init ci co k p r st) x = Inr y \<and>
           shape y = [N, co, H + 2 * p - k + 1, W + 2 * p - k + 1] \<and> wf_tensor y"
proof -
  let ?b = "Block_init ci co k p r st"
  obtain u where u: "Conv2d_forward (conv ?b) x = Inr u"
      "shape u = [N, co, H + 2 * p - k + 1, W + 2 * p - k + 1]"
    using Conv2d_forward_shape[of x N ci H W "conv ?b"] assms
    by (auto simp: Block_init_def)
  obtain v where v: "BatchNorm2d_forward (norm ?b) u = Inr v"
      "shape v = [N, co, H + 2 * p - k + 1, W + 2 * p - k + 1]" "wf_tensor v"
    using BatchNorm2d_forward_shape[of u N co "H + 2 * p - k + 1" "W + 2 * p - k + 1" "norm ?b"] u assms
    by (auto simp: Block_init_def)
  show ?thesis
    using u v by (auto simp: Block_forward_def wf_relu_t)
qed

subsection \<open>Zero weights\<close>

lemma list4_case_const:
  "(case idx of [] \<Rightarrow> (z::real) | [n] \<Rightarrow> z | [n, c] \<Rightarrow> z | [n, c, i] \<Rightarrow> z
     | [n, c, i, j] \<Rightarrow> z | n # c # i # j # e # es \<Rightarrow> z) = z"
  by (simp split: list.splits)

lemma Conv2d_zero:
  assumes "conv_weight m = (\<lambda>oc c di dj. 0)" "conv_bias m = (\<lambda>oc. 0)"
    "Conv2d_forward m x = Inr u"
  shows "u = zeros (shape u)"
  using assms
  by (auto simp: Conv2d_forward_def Let_def zeros_def conv_at_def list4_case_const
      split: list.splits if_splits)

lemma BatchNorm2d_zero:
  assumes "bn_weight m = (\<lambda>c. 0)" "bn_bias m = (\<lambda>c. 0)" "BatchNorm2d_forward m x = Inr u"
  shows "u = zeros (shape u)"
  using assms
  by (auto simp: BatchNorm2d_forward_def Let_def zeros_def list4_case_const
      split: list.splits if_splits)

lemma relu_zeros: "relu_t (zeros s) = zeros s"
  by (simp add: relu_t_def zeros_def)

lemma Block_zero:
  assumes "zero_weights st" "Block_forward (Block_init ci co k p r st) x = Inr v"
  shows "v = zeros (shape v)"
proof -
  let ?b = "Block_init ci co k p r st"
  from assms(2) obtain u w where u: "Conv2d_forward (conv ?b) x = Inr u"
    and w: "BatchNorm2d_forward (norm ?b) u = Inr w"
    and v: "v = w \<or> v = relu_t w"
    by (auto simp: Block_forward_def split: if_splits sum.splits)
  have "w = zeros (shape w)"
    using BatchNorm2d_zero[OF _ _ w] assms(1)
    by (simp add: Block_init_def zero_weights_def)
  then show ?thesis
    using v relu_zeros[of "shape w"] by (auto simp: zeros_def)
qed

lemma add_zeros_same_shape:
  assumes "wf_tensor x" "add_t x (zeros s) = Inr w" "shape w = shape x"
  shows "w = x"
proof -
  have "elems w idx = elems x idx" for idx
    using assms bidx_in_bounds[of "shape x" idx]
    by (auto simp: add_t_def zeros_def wf_tensor_def split: option.splits)
  then have "elems w = elems x" by (rule ext)
  with assms(3) show ?thesis by simp
qed

lemma add_zeros_eq_shape:
  assumes "wf_tensor x"
  shows "add_t x (zeros (shape x)) = Inr x"
proof -
  obtain w where w: "add_t x (zeros (shape x)) = Inr w" "shape w = shape x"
    by (auto simp: add_t_def zeros_def broadcast_shapes_same)
  with add_zeros_same_shape[OF assms w(1) w(2)] show ?thesis by simp
qed

text \<open>
  Claim C9. With the convolution weights and biases and the normalisation weights and
  biases of both blocks zero, a \<^verbatim>\<open>ResBlock\<close> returns relu x: for kernel size 3 (the
  size the fixed padding 1 preserves) on every non-empty four-dimensional input with the
  right channels that the normalisation accepts, and for any kernel size whenever the
  forward pass returns an output of the input's shape.
\<close>

theorem ResBlock_zero_weights:
  assumes "zero_weights sa" "zero_weights sb" "wf_tensor x"
  shows "(shape x = [N, n, H, W] \<and> 0 < H \<and> 0 < W
            \<and> (st_training sa \<or> st_training sb \<longrightarrow> N * H * W \<noteq> 1)
            \<longrightarrow> ResBlock_forward (ResBlock_init n 3 sa sb) x = Inr (relu_t x))
       \<and> (ResBlock_forward (ResBlock_init n k sa sb) x = Inr out \<and> shape out = shape x
            \<longrightarrow> out = relu_t x)"
proof (intro conjI impI)
  assume h: "shape x = [N, n, H, W] \<and> 0 < H \<and> 0 < W
            \<and> (st_training sa \<or> st_training sb \<longrightarrow> N * H * W \<noteq> 1)"
  then have sx: "shape x = [N, n, H, W]" and k: "(3::nat) \<le> H + 2 * 1" "(3::nat) \<le> W + 2 * 1"
    and ta: "st_training sa \<longrightarrow> N * (H + 2 * 1 - 3 + 1) * (W + 2 * 1 - 3 + 1) \<noteq> 1"
    and tb: "st_training sb \<longrightarrow> N * (H + 2 * 1 - 3 + 1) * (W + 2 * 1 - 3 + 1) \<noteq> 1"
    by auto
  have "\<exists>u. Block_forward (Block_init n n 3 1 PyNone sb) x = Inr u \<and>
          shape u = [N, n, H + 2 * 1 - 3 + 1, W + 2 * 1 - 3 + 1] \<and> wf_tensor u"
    by (rule Block_forward_shape[OF sx _ k tb]) simp
  then obtain u where u: "Block_forward (Block_init n n 3 1 PyNone sb) x = Inr u"
    "shape u = [N, n, H, W]"
    using h by auto
  have "\<exists>y. Block_forward (Block_init n n 3 1 (PyBool True) sa) u = Inr y \<and>
          shape y = [N, n, H + 2 * 1 - 3 + 1, W + 2 * 1 - 3 + 1] \<and> wf_tensor y"
    by (rule Block_forward_shape[OF u(2) _ k ta]) simp
  then obtain y where y: "Block_forward (Block_init n n 3 1 (PyBool True) sa) u = Inr y"
    "shape y = [N, n, H, W]"
    using h by auto
  have "y = zeros (shape x)"
    using Block_zero[OF assms(1) y(1)] y(2) sx by simp
  then show "ResBlock_forward (ResBlock_init n 3 sa sb) x = Inr (relu_t x)"
    using u y add_zeros_eq_shape[OF assms(3)]
    by (simp add: ResBlock_forward_def ResBlock_init_def)
next
  assume h: "ResBlock_forward (ResBlock_init n k sa sb) x = Inr out \<and> shape out = shape x"
  then obtain u y s where u: "Block_forward (Block_init n n k 1 PyNone sb) x = Inr u"
    and y: "Block_forward (Block_init n n k 1 (PyBool True) sa) u = Inr y"
    and s: "add_t x y = Inr s" and out: "out = relu_t s"
    by (auto simp: ResBlock_forward_def ResBlock_init_def split: sum.splits)
  have yz: "y = zeros (shape y)" using Block_zero[OF assms(1) y] .
  have "shape s = shape x" using h out by simp
  with s yz add_zeros_same_shape[OF assms(3), of "shape y" s] have "s = x" by simp
  with out show "out = relu_t x" by simp
qed

subsection \<open>Constant blocks\<close>

lemma list4_case_in_bounds:
  "(case idx of [] \<Rightarrow> (0::real) | [n] \<Rightarrow> 0 | [n, c] \<Rightarrow> 0 | [n, c, i] \<Rightarrow> 0
     | [n, c, i, j] \<Rightarrow> if n < N \<and> c < C \<and> i < H \<and> j < W then v else 0
     | n # c # i # j # e # es \<Rightarrow> 0) = (if in_bounds [N, C, H, W] idx then v else 0)"
  by (simp add: in_bounds_def list_all2_Cons2 split: list.splits)

lemma Conv2d_forward_zero_weight:
  assumes "shape x = [N, C, H, W]" "C = in_channels m" "0 < kernel_size m"
    "kernel_size m \<le> H + 2 * padding m" "kernel_size m \<le> W + 2 * padding m"
    "conv_weight m = (\<lambda>oc c di dj. 0)" "conv_bias m = (\<lambda>oc. 0)"
  shows "Conv2d_forward m x =
           Inr (zeros [N, out_channels m, H + 2 * padding m - kernel_size m + 1,
                       W + 2 * padding m - kernel_size m + 1])"
proof -
  obtain y where y: "Conv2d_forward m x = Inr y"
    "shape y = [N, out_channels m, H + 2 * padding m - kernel_size m + 1,
                W + 2 * padding m - kernel_size m + 1]"
    using Conv2d_forward_shape[OF assms(1-5)] by blast
  from Conv2d_zero[OF assms(6,7) y(1)] y show ?thesis by simp
qed

lemma BatchNorm2d_forward_const:
  assumes "shape x = [N, C, H, W]" "C = num_features m" "training m \<longrightarrow> N * H * W \<noteq> 1"
    "bn_weight m = (\<lambda>c. 0)" "bn_bias m = (\<lambda>c. v)"
  shows "BatchNorm2d_forward m x =
           Inr \<lparr>shape = [N, C, H, W],
                elems = (\<lambda>idx. if in_bounds [N, C, H, W] idx then v else 0)\<rparr>"
proof -
  have nt: "\<not> (training m \<and> N * H * W = 1)" using assms(3) by blast
  have f: "(\<lambda>idx. case idx of
              [n, c, i, j] \<Rightarrow>
                if n < N \<and> c < C \<and> i < H \<and> j < W
                then
                  (let mu = (if training m then batch_mean x N H W c else running_mean m c);
                       var = (if training m then batch_var x N H W c else running_var m c)
                   in (elems x idx - mu) / sqrt (var + eps m) * bn_weight m c + bn_bias m c)
                else 0
            | _ \<Rightarrow> 0) = (\<lambda>idx. if in_bounds [N, C, H, W] idx then v else 0)"
    by (intro ext) (simp add: assms(4,5) in_bounds_def list_all2_Cons2 Let_def split: list.splits)
  show ?thesis
    unfolding BatchNorm2d_forward_def assms(1) list.case if_not_P[OF nt] f
    using assms(2) by simp
qed

lemma Block_forward_beta_state:
  assumes "shape x = [N, ci, H, W]" "0 < k" "k \<le> H + 2 * p" "k \<le> W + 2 * p"
    "mode \<longrightarrow> N * (H + 2 * p - k + 1) * (W + 2 * p - k + 1) \<noteq> 1"
  shows "Block_forward (Block_init ci co k p r (beta_state v mode)) x =
     Inr \<lparr>shape = [N, co, H + 2 * p - k + 1, W + 2 * p - k + 1],
          elems = (\<lambda>idx. if in_bounds [N, co, H + 2 * p - k + 1, W + 2 * p - k + 1] idx
                          then (if truthy r then max 0 v else v) else 0)\<rparr>"
proof -
  let ?b = "Block_init ci co k p r (beta_state v mode)"
  let ?s = "[N, co, H + 2 * p - k + 1, W + 2 * p - k + 1]"
  have c: "Conv2d_forward (conv ?b) x = Inr (zeros ?s)"
    using Conv2d_forward_zero_weight[of x N ci H W "conv ?b"] assms(1-4)
    by (simp add: Block_init_def beta_state_def)
  have n: "BatchNorm2d_forward (norm ?b) (zeros ?s) =
             Inr \<lparr>shape = ?s, elems = (\<lambda>idx. if in_bounds ?s idx then v else 0)\<rparr>"
    by (rule BatchNorm2d_forward_const)
       (use assms(5) in \<open>simp_all add: Block_init_def beta_state_def zeros_def del: mult_eq_1_iff\<close>)
  have r: "rl ?b = r" by (simp add: Block_init_def)
  show ?thesis
    by (simp only: Block_forward_def c n r sum.case) (auto simp: relu_t_def intro!: ext)
qed

subsection \<open>The block and the order of the paths\<close>

text \<open>
  Claim C3. A block built from (input channels, output channels, kernel size, padding,
  activation flag) returns relu (norm (conv x)) when the flag is true and norm (conv x),
  unchanged, when it is not; an error of the convolution or of the normalisation is the
  block's error. The convolution has the given channels, kernel size and padding, the
  normalisation the output channels. On a four-dimensional input with the block's input
  channels that the kernel fits and the normalisation accepts, the block returns an
  output, of shape (N, c_out, H + 2p - fs + 1, W + 2p - fs + 1).
\<close>

theorem Block_forward_spec:
  "Block_forward (Block_init ci co k p r st) x =
     (let normed =
        then_norm \<lparr>num_features = co, bn_weight = st_gamma st, bn_bias = st_beta st,
                   running_mean = st_running_mean st, running_var = st_running_var st,
                   eps = 1 / 100000, training = st_training st\<rparr>
          (Conv2d_forward \<lparr>in_channels = ci, out_channels = co, kernel_size = k, padding = p,
                            conv_weight = st_weight st, conv_bias = st_bias st\<rparr> x)
      in if truthy r then then_relu normed else normed)
   \<and> (shape x = [N, ci, H, W] \<and> 0 < k \<and> k \<le> H + 2 * p \<and> k \<le> W + 2 * p \<and>
        (st_training st \<longrightarrow> N * (H + 2 * p - k + 1) * (W + 2 * p - k + 1) \<noteq> 1) \<longrightarrow>
      (\<exists>y. Block_forward (Block_init ci co k p r st) x = Inr y \<and>
           shape y = [N, co, H + 2 * p - k + 1, W + 2 * p - k + 1]))"
proof (intro conjI impI)
  show "Block_forward (Block_init ci co k p r st) x =
     (let normed =
        then_norm \<lparr>num_features = co, bn_weight = st_gamma st, bn_bias = st_beta st,
                   running_mean = st_running_mean st, running_var = st_running_var st,
                   eps = 1 / 100000, training = st_training st\<rparr>
          (Conv2d_forward \<lparr>in_channels = ci, out_channels = co, kernel_size = k, padding = p,
                            conv_weight = st_weight st, conv_bias = st_bias st\<rparr> x)
      in if truthy r then then_relu normed else normed)"
    by (simp add: Block_forward_def Block_init_def then_norm_def then_relu_def split: sum.splits)
next
  assume "shape x = [N, ci, H, W] \<and> 0 < k \<and> k \<le> H + 2 * p \<and> k \<le> W + 2 * p \<and>
        (st_training st \<longrightarrow> N * (H + 2 * p - k + 1) * (W + 2 * p - k + 1) \<noteq> 1)"
  then show "\<exists>y. Block_forward (Block_init ci co k p r st) x = Inr y \<and>
           shape y = [N, co, H + 2 * p - k + 1, W + 2 * p - k + 1]"
    using Block_forward_shape[of x N ci H W k p st co r] by blast
qed

text \<open>
  Claim C8. Computing path B before path A and adding in that order returns the same
  output as \<^verbatim>\<open>AltBlock.forward\<close>: one order returns \<open>out\<close> exactly when the other does.
\<close>

theorem AltBlock_swap:
  "AltBlock_forward m x = Inr out \<longleftrightarrow> AltBlock_forward_swapped m x = Inr out"
  by (auto simp: AltBlock_forward_def AltBlock_forward_swapped_def add_t_comm split: sum.splits)

subsection \<open>The plain deep network\<close>

lemma nat_prod_ne_1: "(2::nat) \<le> a \<Longrightarrow> N * a * b \<noteq> 1"
  by auto

lemma Block_forward_shape_big:
  assumes "shape x = [N, ci, H, W]" "0 < k" "k \<le> H + 2 * p" "k \<le> W + 2 * p"
    "2 \<le> H + 2 * p - k + 1"
  shows "\<exists>y. Block_forward (Block_init ci co k p r st) x = Inr y \<and>
           shape y = [N, co, H + 2 * p - k + 1, W + 2 * p - k + 1] \<and> wf_tensor y"
proof (rule Block_forward_shape[OF assms(1-4)])
  show "st_training st \<longrightarrow> N * (H + 2 * p - k + 1) * (W + 2 * p - k + 1) \<noteq> 1"
    using nat_prod_ne_1[OF assms(5)] by blast
qed

lemma AdaptiveAvgPool2d_forward_shape:
  assumes "shape x = [N, C, H, W]" "0 < C" "0 < H" "0 < W"
  shows "\<exists>y. AdaptiveAvgPool2d_forward out x = Inr y \<and> shape y = [N, C, out, out]"
  using assms by (simp add: AdaptiveAvgPool2d_forward_def)

lemma Flatten_forward_shape:
  assumes "shape x = N # d # ds"
  shows "\<exists>y. Flatten_forward x = Inr y \<and> shape y = [N, prod_list (d # ds)]"
  using assms by (simp add: Flatten_forward_def)

lemma Linear_forward_shape:
  assumes "shape x = s @ [in_features m]"
  shows "\<exists>y. Linear_forward m x = Inr y \<and> shape y = s @ [out_features m]"
  using assms by (simp add: Linear_forward_def Let_def)

text \<open>
  Claim C7. For every state of its parameters, \<^verbatim>\<open>net0\<close> maps an input of shape
  (batch, 3, 32, 32) to an output of shape (batch, 10), without error.
\<close>

theorem net0_output_shape:
  assumes "shape x = [batch, 3, 32, 32]"
  shows "result_shape (Sequential_forward (net0 st lw lb) x) = Inr [batch, 10]"
proof -
  obtain y1 where y1: "Block_forward (Block_init 3 6 5 0 (PyBool True) (st 0)) x = Inr y1"
    "shape y1 = [batch, 6, 28, 28]"
    using Block_forward_shape_big[OF assms, of 5 0 6 "PyBool True" "st 0"] by auto
  obtain y2 where y2: "Block_forward (Block_init 6 16 3 0 (PyBool True) (st 1)) y1 = Inr y2"
    "shape y2 = [batch, 16, 26, 26]"
    using Block_forward_shape_big[OF y1(2), of 3 0 16 "PyBool True" "st 1"] by auto
  obtain y3 where y3: "Block_forward (Block_init 16 16 3 0 (PyBool True) (st 2)) y2 = Inr y3"
    "shape y3 = [batch, 16, 24, 24]"
    using Block_forward_shape_big[OF y2(2), of 3 0 16 "PyBool True" "st 2"] by auto
  obtain y4 where y4: "Block_forward (Block_init 16 16 3 0 (PyBool True) (st 3)) y3 = Inr y4"
    "shape y4 = [batch, 16, 22, 22]"
    using Block_forward_shape_big[OF y3(2), of 3 0 16 "PyBool True" "st 3"] by auto
  obtain y5 where y5: "Block_forward (Block_init 16 32 3 0 (PyBool True) (st 4)) y4 = Inr y5"
    "shape y5 = [batch, 32, 20, 20]"
    using Block_forward_shape_big[OF y4(2), of 3 0 32 "PyBool True" "st 4"] by auto
  obtain y6 where y6: "Block_forward (Block_init 32 32 3 0 (PyBool True) (st 5)) y5 = Inr y6"
    "shape y6 = [batch, 32, 18, 18]"
    using Block_forward_shape_big[OF y5(2), of 3 0 32 "PyBool True" "st 5"] by auto
  obtain y7 where y7: "Block_forward (Block_init 32 32 3 0 (PyBool True) (st 6)) y6 = Inr y7"
    "shape y7 = [batch, 32, 16, 16]"
    using Block_forward_shape_big[OF y6(2), of 3 0 32 "PyBool True" "st 6"] by auto
  obtain y8 where y8: "Block_forward (Block_init 32 64 3 0 (PyBool True) (st 7)) y7 = Inr y8"
    "shape y8 = [batch, 64, 14, 14]"
    using Block_forward_shape_big[OF y7(2), of 3 0 64 "PyBool True" "st 7"] by auto
  obtain y9 where y9: "Block_forward (Block_init 64 64 3 0 (PyBool True) (st 8)) y8 = Inr y9"
    "shape y9 = [batch, 64, 12, 12]"
    using Block_forward_shape_big[OF y8(2), of 3 0 64 "PyBool True" "st 8"] by auto
  obtain y10 where y10: "Block_forward (Block_init 64 64 3 0 (PyBool True) (st 9)) y9 = Inr y10"
    "shape y10 = [batch, 64, 10, 10]"
    using Block_forward_shape_big[OF y9(2), of 3 0 64 "PyBool True" "st 9"] by auto
  obtain y11 where y11: "AdaptiveAvgPool2d_forward 1 y10 = Inr y11" "shape y11 = [batch, 64, 1, 1]"
    using AdaptiveAvgPool2d_forward_shape[OF y10(2), of 1] by auto
  obtain y12 where y12: "Flatten_forward y11 = Inr y12" "shape y12 = [batch, 64]"
    using Flatten_forward_shape[OF y11(2)] by auto
  obtain y13 where y13:
    "Linear_forward \<lparr>in_features = 64, out_features = 10, lin_weight = lw, lin_bias = lb\<rparr> y12 = Inr y13"
    "shape y13 = [batch, 10]"
    using Linear_forward_shape[of y12 "[batch]"
        "\<lparr>in_features = 64, out_features = 10, lin_weight = lw, lin_bias = lb\<rparr>"] y12(2)
    by auto
  show ?thesis
    by (simp only: net0_def result_shape_def Sequential_forward.simps layer_forward.simps
        sum.case y1 y2 y3 y4 y5 y6 y7 y8 y9 y10 y11 y12 y13)
qed

subsection \<open>The training phase\<close>

lemma and_then_Inr:
  "and_then m f w = Inr r \<longleftrightarrow> (\<exists>a w'. m w = Inr (a, w') \<and> f a w' = Inr r)"
  by (auto simp: and_then_def split: sum.splits)

lemma lift_result_Inr: "lift_result r w = Inr (a, w') \<longleftrightarrow> r = Inr a \<and> w' = w"
  by (auto simp: lift_result_def split: sum.splits)

lemma ret_Inr: "ret a w = Inr (b, w') \<longleftrightarrow> b = a \<and> w' = w"
  by (auto simp: ret_def)

lemma logged_Inr:
  "logged ev f (w, tr) = Inr (a, (w', tr')) \<longleftrightarrow> f w = Inr (a, w') \<and> tr' = tr @ [ev a]"
  by (auto simp: logged_def split: sum.splits)

lemma traced_simps:
  "model_train (traced E) = logged (\<lambda>_. EvModelTrain) (model_train E)"
  "model_eval (traced E) = logged (\<lambda>_. EvModelEval) (model_eval E)"
  "model_call (traced E) img = logged (\<lambda>out. EvModelCall img out) (model_call E img)"
  "criterion (traced E) out lab = logged (\<lambda>l. EvCriterion out lab (loss_item E l)) (criterion E out lab)"
  "loss_backward (traced E) l = logged (\<lambda>_. EvBackward) (loss_backward E l)"
  "loss_item (traced E) = loss_item E"
  "optimizer_zero_grad (traced E) = logged (\<lambda>_. EvZeroGrad) (optimizer_zero_grad E)"
  "optimizer_step (traced E) = logged (\<lambda>_. EvStep) (optimizer_step E)"
  "no_grad_enter (traced E) = logged (\<lambda>_. EvNoGradEnter) (no_grad_enter E)"
  "no_grad_exit (traced E) = logged (\<lambda>_. EvNoGradExit) (no_grad_exit E)"
  "randperm (traced E) n = logged (\<lambda>p. EvRandPerm n p) (randperm E n)"
  by (simp_all add: traced_def)

lemma fetch_Inr:
  "fetch ds idxs = Inr (img, lab) \<longleftrightarrow>
     list_all (\<lambda>i. i < length ds) idxs \<and> img = map (\<lambda>i. fst (ds ! i)) idxs \<and>
     lab = map (\<lambda>i. snd (ds ! i)) idxs"
  by (auto simp: fetch_def)


lemma batch_sampler_concat: "concat (batch_sampler k acc xs) = acc @ xs"
  by (induction xs arbitrary: acc) auto

lemma batch_sampler_length:
  "length acc < k \<Longrightarrow>
   length (batch_sampler k acc xs) = (length acc + length xs + k - 1) div k"
proof (induction xs arbitrary: acc)
  case Nil
  then show ?case by (cases acc) auto
next
  case (Cons x xs)
  show ?case
  proof (cases "Suc (length acc) = k")
    case True
    have "length (batch_sampler k [] xs) = (length xs + k - 1) div k"
      using Cons.IH[of "[]"] Cons.prems by simp
    moreover have "(length acc + length (x # xs) + k - 1) div k = Suc ((length xs + k - 1) div k)"
    proof -
      define m where "m = length xs + k - 1"
      have "length acc + length (x # xs) + k - 1 = m + k"
        using True by (auto simp: m_def)
      moreover have "(m + k) div k = Suc (m div k)"
        using Cons.prems by simp
      ultimately show ?thesis by (simp only: m_def)
    qed
    ultimately show ?thesis using True by simp
  next
    case False
    then have "length (acc @ [x]) < k" using Cons.prems by simp
    from Cons.IH[OF this] False show ?thesis by simp
  qed
qed

lemma py_truediv_Inr: "py_truediv a b = Inr c \<longleftrightarrow> b \<noteq> 0 \<and> c = a / b"
  by (auto simp: py_truediv_def)

lemma loader_len_eq:
  assumes "loader_len L \<noteq> 0" "length p = length (dataset L)"
  shows "length (batch_sampler (batch_size L) [] p) = loader_len L"
proof -
  have "0 < batch_size L"
    using assms(1) by (cases "batch_size L = 0") (auto simp: loader_len_def)
  then show ?thesis
    using batch_sampler_length[of "[]" "batch_size L" p] assms(2)
    by (simp add: loader_len_def)
qed


lemma max_last_correct:
  assumes "max_last (map softmax out) = Inr (ms, ps)" "length lab = length out"
  shows "length ps = length out \<and>
         sum_item (map2 (\<lambda>p l. int p = l) ps lab) = int (length (filter correct (zip out lab)))"
  using assms
proof (induction out arbitrary: ms ps lab)
  case Nil
  then show ?case by (simp add: sum_item_def)
next
  case (Cons row rows)
  from Cons.prems(2) obtain l lab' where lab: "lab = l # lab'" "length lab' = length rows"
    by (cases lab) auto
  from Cons.prems(1) obtain m i ms' ps' where
    mi: "max_with_index (softmax row) = Some (m, i)"
    and rec: "max_last (map softmax rows) = Inr (ms', ps')"
    and eq: "ms = m # ms'" "ps = i # ps'"
    by (auto split: option.splits sum.splits)
  from Cons.IH[OF rec lab(2)] show ?case
    using mi eq lab by (simp add: sum_item_def correct_def)
qed

lemma eq_t_same_length:
  "length pred = length lab \<Longrightarrow> eq_t pred lab = Inr (map2 (\<lambda>p l. int p = l) pred lab)"
  by (simp add: eq_t_def)

lemma eval_batches_traced:
  assumes "eval_batches (traced E) ds ibs cur acc (w, tr) = Inr ((cur', acc'), (w', tr'))"
    and rows: "\<forall>img w out w'. model_call E img w = Inr (out, w') \<longrightarrow> length out = length img"
  shows "\<exists>outs losses.
           length outs = length ibs \<and> length losses = length ibs \<and>
           list_all2 (\<lambda>out idxs. length out = length idxs) outs ibs \<and>
           tr' = tr @ concat (map (eval_events ds) (zip ibs (zip outs losses))) \<and>
           cur' = cur + sum_list losses \<and>
           acc' = acc + int (length (filter correct
                     (zip (concat outs) (map (\<lambda>i. snd (ds ! i)) (concat ibs)))))"
  using assms(1)
proof (induction ibs arbitrary: cur acc w tr)
  case Nil
  then show ?case by (simp add: ret_Inr)
next
  case (Cons idxs rest)
  let ?img = "map (\<lambda>i. fst (ds ! i)) idxs" and ?lab = "map (\<lambda>i. snd (ds ! i)) idxs"
  from Cons.prems obtain out w1 l w2 ms pred flags where
    mc: "model_call E ?img w = Inr (out, w1)"
    and cr: "criterion E out ?lab w1 = Inr (l, w2)"
    and ml: "max_last (map softmax out) = Inr (ms, pred)"
    and eq: "eq_t pred ?lab = Inr flags"
    and rec: "eval_batches (traced E) ds rest (cur + loss_item E l) (acc + sum_item flags)
                (w2, tr @ eval_events ds (idxs, out, loss_item E l))
              = Inr ((cur', acc'), (w', tr'))"
    by (auto simp: and_then_Inr lift_result_Inr fetch_Inr traced_simps logged_Inr eval_events_def)
  have lo: "length out = length idxs" using rows mc by fastforce
  from max_last_correct[OF ml, of ?lab] lo
  have lp: "length pred = length idxs"
    and cnt: "sum_item (map2 (\<lambda>p l. int p = l) pred ?lab) = int (length (filter correct (zip out ?lab)))"
    by auto
  from eq lp have fl: "flags = map2 (\<lambda>p l. int p = l) pred ?lab"
    by (simp add: eq_t_same_length)
  from Cons.IH[OF rec] obtain outs losses where
    ih: "length outs = length rest" "length losses = length rest"
      "list_all2 (\<lambda>out idxs. length out = length idxs) outs rest"
      "tr' = (tr @ eval_events ds (idxs, out, loss_item E l))
               @ concat (map (eval_events ds) (zip rest (zip outs losses)))"
      "cur' = cur + loss_item E l + sum_list losses"
      "acc' = acc + sum_item flags + int (length (filter correct
                     (zip (concat outs) (map (\<lambda>i. snd (ds ! i)) (concat rest)))))"
    by blast
  show ?case
    apply (rule exI[of _ "out # outs"])
    apply (rule exI[of _ "loss_item E l # losses"])
    using ih lo fl cnt by simp
qed

subsection \<open>Predictions and accuracy\<close>

lemma max_with_index_argmax:
  "max_with_index row = Some (m, i) \<Longrightarrow> is_argmax row i \<and> m = row ! i"
proof (induction row arbitrary: m i)
  case Nil
  then show ?case by simp
next
  case (Cons v vs)
  show ?case
  proof (cases "max_with_index vs")
    case None
    then have "vs = []" by (cases vs) (auto split: option.splits if_splits)
    with Cons.prems None show ?thesis by (simp add: is_argmax_def)
  next
    case (Some r)
    obtain m' i' where r: "r = (m', i')" by (cases r)
    from Cons.IH[of m' i'] Some r have ih: "is_argmax vs i'" "m' = vs ! i'" by auto
    show ?thesis
    proof (cases "v < m'")
      case True
      with Cons.prems Some r have "m = m'" "i = Suc i'" by auto
      with ih True show ?thesis by (auto simp: is_argmax_def)
    next
      case False
      with Cons.prems Some r have mi: "m = v" "i = 0" by auto
      have "list_all (\<lambda>u. u \<le> v) vs"
        using ih False by (auto simp: is_argmax_def list_all_iff)
      with mi show ?thesis by (simp add: is_argmax_def)
    qed
  qed
qed

lemma max_with_index_nonempty: "row \<noteq> [] \<Longrightarrow> \<exists>m i. max_with_index row = Some (m, i)"
  by (cases row) (auto split: option.splits)

lemma is_argmax_unique: "is_argmax row i \<Longrightarrow> is_argmax row j \<Longrightarrow> i = j"
proof (rule ccontr)
  assume a: "is_argmax row i" "is_argmax row j" "i \<noteq> j"
  have less: False if h: "is_argmax row a" "is_argmax row b" "a < b" for a b
  proof -
    have "row ! a \<in> set (take b row)"
      using h by (metis in_set_conv_nth is_argmax_def length_take min_less_iff_conj nth_take)
    then have "row ! a < row ! b" using h(2) by (auto simp: is_argmax_def list_all_iff)
    moreover have "row ! b \<le> row ! a"
      using h by (auto simp: is_argmax_def list_all_iff)
    ultimately show False by simp
  qed
  from a less[of i j] less[of j i] show False by (cases "i < j") auto
qed

lemma correct_iff:
  "correct (row, label) \<longleftrightarrow> row \<noteq> [] \<and> 0 \<le> label \<and> is_argmax (softmax row) (nat label)"
proof (cases "row = []")
  case True
  then show ?thesis by (simp add: correct_def softmax_def)
next
  case False
  then have "softmax row \<noteq> []" by (simp add: softmax_def)
  then obtain m i where mi: "max_with_index (softmax row) = Some (m, i)"
    using max_with_index_nonempty by blast
  from max_with_index_argmax[OF mi] have am: "is_argmax (softmax row) i" by simp
  show ?thesis
  proof
    assume "correct (row, label)"
    with mi have "int i = label" by (simp add: correct_def)
    with am False show "row \<noteq> [] \<and> 0 \<le> label \<and> is_argmax (softmax row) (nat label)" by auto
  next
    assume h: "row \<noteq> [] \<and> 0 \<le> label \<and> is_argmax (softmax row) (nat label)"
    with am have "i = nat label" using is_argmax_unique by blast
    with h mi show "correct (row, label)" by (simp add: correct_def)
  qed
qed

lemma map_snd_nth: "map (\<lambda>i. snd (ds ! i)) [0..<length ds] = map snd ds"
proof -
  have "map (\<lambda>i. snd (ds ! i)) [0..<length ds] = map snd (map ((!) ds) [0..<length ds])"
    by simp
  then show ?thesis by (simp only: map_nth)
qed

text \<open>
  Claim C5. When the evaluation half of an epoch completes, its calls were, in order:
  the autograd switch, \<^verbatim>\<open>model.eval()\<close>, then for each batch of the test loader, once and
  in order, the model on the batch's images and the criterion on that output and the
  batch's labels; and the switch back. The batches, one after the other, are the
  validation examples \<open>0, 1, ...\<close> in the order of the test set, and each output has one
  row per image of its batch, so that row \<open>i\<close> of the outputs taken together is the row
  of scores the model returned for validation example \<open>i\<close>. \<open>accuracy\<close> is 100 times the
  number of examples whose row is correct against the example's label, divided by the
  number of validation examples; \<open>valid_loss\<close> is the mean of the batch losses. A row is
  correct against a label exactly when the label is the index of the first largest
  softmax score of the row. The hypothesis \<open>rows\<close> says that the model returns one row
  of scores per image.
\<close>

theorem evaluation_phase_accuracy:
  assumes run: "evaluation_phase (traced E) G (w, tr) = Inr ((valid_loss, accuracy), (w', tr'))"
    and rows: "\<forall>img w out w'. model_call E img w = Inr (out, w') \<longrightarrow> length out = length img"
  shows "(\<exists>outs losses.
            length outs = length (batch_sampler (bs G) [] [0..<length (testset G)]) \<and>
            length losses = length (batch_sampler (bs G) [] [0..<length (testset G)]) \<and>
            list_all2 (\<lambda>out idxs. length out = length idxs) outs
              (batch_sampler (bs G) [] [0..<length (testset G)]) \<and>
            concat (batch_sampler (bs G) [] [0..<length (testset G)]) = [0..<length (testset G)] \<and>
            tr' = tr @ [EvNoGradEnter, EvModelEval]
                     @ concat (map (eval_events (testset G))
                                 (zip (batch_sampler (bs G) [] [0..<length (testset G)])
                                      (zip outs losses)))
                     @ [EvNoGradExit] \<and>
            length (concat outs) = length (testset G) \<and>
            valid_loss = sum_list losses
                         / real (length (batch_sampler (bs G) [] [0..<length (testset G)])) \<and>
            accuracy = 100 * real (length (filter correct
                                     (zip (concat outs) (map snd (testset G)))))
                       / real (length (testset G)))
         \<and> (\<forall>row label. correct (row, label) \<longleftrightarrow>
               row \<noteq> [] \<and> 0 \<le> label \<and> is_argmax (softmax row) (nat label))"
proof (intro conjI allI)
  let ?n = "length (testset G)"
  let ?ibs = "batch_sampler (bs G) [] [0..<?n]"
  let ?tr2 = "tr @ [EvNoGradEnter, EvModelEval]"
  from run obtain w2 cur acc w3 tr3 where
    eb: "eval_batches (traced E) (testset G) ?ibs 0 0 (w2, ?tr2) = Inr ((cur, acc), (w3, tr3))"
    and dl: "loader_len (testloader G) \<noteq> 0"
      "valid_loss = cur / real (loader_len (testloader G))"
    and dv: "?n \<noteq> 0" "accuracy = real_of_int (100 * acc) / real ?n"
    and ex: "tr' = tr3 @ [EvNoGradExit]"
    by (auto simp: evaluation_phase_def and_then_Inr lift_result_Inr ret_Inr traced_simps
        logged_Inr loader_iter_def testloader_def py_truediv_Inr)
  from eval_batches_traced[OF eb rows] obtain outs losses where
    T: "length outs = length ?ibs" "length losses = length ?ibs"
      "list_all2 (\<lambda>out idxs. length out = length idxs) outs ?ibs"
      "tr3 = ?tr2 @ concat (map (eval_events (testset G)) (zip ?ibs (zip outs losses)))"
      "cur = 0 + sum_list losses"
      "acc = 0 + int (length (filter correct
               (zip (concat outs) (map (\<lambda>i. snd (testset G ! i)) (concat ?ibs)))))"
    by blast
  have c: "concat ?ibs = [0..<?n]" by (simp add: batch_sampler_concat)
  have "length (concat outs) = length (concat ?ibs)"
    using T(3) by (induction rule: list_all2_induct) auto
  then have lc: "length (concat outs) = ?n" by (simp only: c) simp
  have acc: "acc = int (length (filter correct (zip (concat outs) (map snd (testset G)))))"
    using T(6) by (simp only: c map_snd_nth)
  have ll: "length ?ibs = loader_len (testloader G)"
    using loader_len_eq[OF dl(1), of "[0..<?n]"] by (simp add: testloader_def)
  show "\<exists>outs losses.
            length outs = length ?ibs \<and> length losses = length ?ibs \<and>
            list_all2 (\<lambda>out idxs. length out = length idxs) outs ?ibs \<and>
            concat ?ibs = [0..<?n] \<and>
            tr' = tr @ [EvNoGradEnter, EvModelEval]
                     @ concat (map (eval_events (testset G)) (zip ?ibs (zip outs losses)))
                     @ [EvNoGradExit] \<and>
            length (concat outs) = ?n \<and>
            valid_loss = sum_list losses / real (length ?ibs) \<and>
            accuracy = 100 * real (length (filter correct
                                     (zip (concat outs) (map snd (testset G)))))
                       / real ?n"
    apply (rule exI[of _ outs])
    apply (rule exI[of _ losses])
    using T(1,2,3,4,5) c lc ex dl(2) dv(2) ll by (simp add: acc)
  show "correct (row, label) \<longleftrightarrow> row \<noteq> [] \<and> 0 \<le> label \<and> is_argmax (softmax row) (nat label)"
    for row label by (rule correct_iff)
qed

subsection \<open>Ranges of the metrics\<close>

lemma train_epoch_phases:
  "train_epoch E G w = Inr ((train_loss, valid_loss, accuracy), w') \<longleftrightarrow>
     (\<exists>w1. training_phase E G w = Inr (train_loss, w1) \<and>
           evaluation_phase E G w1 = Inr ((valid_loss, accuracy), w'))"
  by (auto simp: train_epoch_def and_then_Inr ret_Inr)

lemma exp_le_sum_list_exp:
  "i < length row \<Longrightarrow> exp (row ! i) \<le> (\<Sum>u\<leftarrow>row. exp u)" for row :: "real list"
proof (induction row arbitrary: i)
  case Nil
  then show ?case by simp
next
  case (Cons v vs)
  have nn: "0 \<le> (\<Sum>u\<leftarrow>vs. exp u)" by (rule sum_list_nonneg) auto
  show ?case
  proof (cases i)
    case 0
    with nn show ?thesis by simp
  next
    case (Suc j)
    with Cons.prems have "j < length vs" by simp
    from Cons.IH[OF this] Suc show ?thesis
      by (simp add: add_increasing)
  qed
qed

lemma nll_nonneg:
  assumes "0 \<le> label" "nat label < length row"
  shows "0 \<le> nll (row, label)"
proof -
  have "exp (row ! nat label) \<le> (\<Sum>u\<leftarrow>row. exp u)"
    using exp_le_sum_list_exp[OF assms(2)] .
  then have "ln (exp (row ! nat label)) \<le> ln (\<Sum>u\<leftarrow>row. exp u)"
    by (subst ln_le_cancel_iff) (auto intro: less_le_trans[OF exp_gt_zero])
  then show ?thesis by (simp add: nll_def)
qed

lemma CrossEntropyLoss_nonneg:
  assumes "CrossEntropyLoss out lab = Inr v"
  shows "0 \<le> v"
proof -
  from assms have ok: "list_all (\<lambda>(row, label). 0 \<le> label \<and> nat label < length row) (zip out lab)"
    and v: "v = (\<Sum>e\<leftarrow>zip out lab. nll e) / real (length out)"
    by (auto simp: CrossEntropyLoss_def split: if_splits)
  have "0 \<le> (\<Sum>e\<leftarrow>zip out lab. nll e)"
  proof (rule sum_list_nonneg)
    fix x assume "x \<in> set (map nll (zip out lab))"
    then obtain row label where "(row, label) \<in> set (zip out lab)" "x = nll (row, label)"
      by auto
    with ok show "0 \<le> x" by (auto simp: list_all_iff intro: nll_nonneg)
  qed
  with v show ?thesis by simp
qed


lemma cross_entropy_env_nonneg:
  assumes "criterion E = (\<lambda>out lab. lift_result (CrossEntropyLoss out lab))"
    and "loss_item E = (\<lambda>l. l)"
  shows "\<forall>out lab w l w'. criterion E out lab w = Inr (l, w') \<longrightarrow> 0 \<le> loss_item E l"
  using assms by (auto simp: lift_result_Inr intro: CrossEntropyLoss_nonneg)

lemma train_batches_nonneg:
  assumes "train_batches E ds ibs cur w = Inr (cur', w')"
    and nonneg: "\<forall>out lab w l w'. criterion E out lab w = Inr (l, w') \<longrightarrow> 0 \<le> loss_item E l"
  shows "cur \<le> cur'"
  using assms(1)
proof (induction ibs arbitrary: cur w)
  case Nil
  then show ?case by (simp add: ret_Inr)
next
  case (Cons idxs rest)
  from Cons.prems obtain out lab w1 l w2 w3 where
    cr: "criterion E out lab w1 = Inr (l, w2)"
    and rec: "train_batches E ds rest (cur + loss_item E l) w3 = Inr (cur', w')"
    by (auto simp: and_then_Inr lift_result_Inr)
  from nonneg cr have "0 \<le> loss_item E l" by blast
  with Cons.IH[OF rec] show ?case by simp
qed

lemma sum_item_bounds: "0 \<le> sum_item flags \<and> sum_item flags \<le> int (length flags)"
  by (simp add: sum_item_def)

lemma max_last_length: "max_last rows = Inr (ms, ps) \<Longrightarrow> length ps = length rows"
  by (induction rows arbitrary: ms ps) (auto split: option.splits sum.splits)

lemma eval_batches_acc_bounds:
  assumes "eval_batches E ds ibs cur acc w = Inr ((cur', acc'), w')"
    and rows: "\<forall>img w out w'. model_call E img w = Inr (out, w') \<longrightarrow> length out = length img"
  shows "acc \<le> acc' \<and> acc' \<le> acc + int (length (concat ibs))"
  using assms(1)
proof (induction ibs arbitrary: cur acc w)
  case Nil
  then show ?case by (simp add: ret_Inr)
next
  case (Cons idxs rest)
  let ?img = "map (\<lambda>i. fst (ds ! i)) idxs" and ?lab = "map (\<lambda>i. snd (ds ! i)) idxs"
  from Cons.prems obtain out w1 l w2 ms pred flags where
    mc: "model_call E ?img w = Inr (out, w1)"
    and ml: "max_last (map softmax out) = Inr (ms, pred)"
    and eq: "eq_t pred ?lab = Inr flags"
    and rec: "eval_batches E ds rest (cur + loss_item E l) (acc + sum_item flags) w2
              = Inr ((cur', acc'), w')"
    by (auto simp: and_then_Inr lift_result_Inr fetch_Inr)
  have "length out = length idxs" using rows mc by fastforce
  with max_last_length[OF ml] have "length pred = length ?lab" by simp
  with eq have "length flags = length idxs" by (auto simp: eq_t_def)
  with sum_item_bounds[of flags] Cons.IH[OF rec] show ?case by simp
qed

lemma train_epoch_ranges:
  assumes run: "train_epoch E G w = Inr ((train_loss, valid_loss, accuracy), w')"
    and nonneg: "\<forall>out lab w l w'. criterion E out lab w = Inr (l, w') \<longrightarrow> 0 \<le> loss_item E l"
    and rows: "\<forall>img w out w'. model_call E img w = Inr (out, w') \<longrightarrow> length out = length img"
  shows "0 \<le> train_loss \<and> 0 \<le> accuracy \<and> accuracy \<le> 100"
proof -
  let ?n = "length (testset G)"
  from run obtain w1 w2 where
    tp: "training_phase E G w = Inr (train_loss, w1)"
    and ep: "evaluation_phase E G w1 = Inr ((valid_loss, accuracy), w2)"
    by (auto simp: train_epoch_def and_then_Inr ret_Inr)
  from tp obtain ibs cur wa wb where
    tb: "train_batches E (trainset G) ibs 0 wa = Inr (cur, wb)"
    and tl: "train_loss = cur / real (loader_len (trainloader G))"
    by (auto simp: training_phase_def and_then_Inr lift_result_Inr py_truediv_Inr)
  from train_batches_nonneg[OF tb nonneg] tl have 1: "0 \<le> train_loss" by simp
  from ep obtain wc cur2 acc wd where
    eb: "eval_batches E (testset G) (batch_sampler (bs G) [] [0..<?n]) 0 0 wc
           = Inr ((cur2, acc), wd)"
    and dv: "?n \<noteq> 0" "accuracy = real_of_int (100 * acc) / real ?n"
    by (auto simp: evaluation_phase_def and_then_Inr lift_result_Inr ret_Inr
        loader_iter_def testloader_def py_truediv_Inr)
  from eval_batches_acc_bounds[OF eb rows]
  have b: "0 \<le> acc" "acc \<le> int ?n" by (simp_all add: batch_sampler_concat)
  have 2: "0 \<le> accuracy" using b(1) dv by simp
  have "real_of_int (100 * acc) \<le> 100 * real ?n" using b(2) by simp
  then have 3: "accuracy \<le> 100" using dv by (simp add: divide_le_eq)
  from 1 2 3 show ?thesis by simp
qed

lemma train_epochs_ranges:
  assumes "train_epochs E G k metrics w = Inr (metrics', w')"
    and nonneg: "\<forall>out lab w l w'. criterion E out lab w = Inr (l, w') \<longrightarrow> 0 \<le> loss_item E l"
    and rows: "\<forall>img w out w'. model_call E img w = Inr (out, w') \<longrightarrow> length out = length img"
    and "list_all (\<lambda>(tl, vl, a). 0 \<le> tl \<and> 0 \<le> a \<and> a \<le> 100) metrics"
  shows "list_all (\<lambda>(tl, vl, a). 0 \<le> tl \<and> 0 \<le> a \<and> a \<le> 100) metrics' \<and>
         length metrics' = length metrics + k"
  using assms(1,4)
proof (induction k arbitrary: metrics w)
  case 0
  then show ?case by (simp add: ret_Inr)
next
  case (Suc k)
  from Suc.prems(1) obtain tl vl a w1 where
    te: "train_epoch E G w = Inr ((tl, vl, a), w1)"
    and rec: "train_epochs E G k (metrics @ [(tl, vl, a)]) w1 = Inr (metrics', w')"
    by (auto simp: and_then_Inr)
  from train_epoch_ranges[OF te nonneg rows] Suc.prems(2)
  have "list_all (\<lambda>(tl, vl, a). 0 \<le> tl \<and> 0 \<le> a \<and> a \<le> 100) (metrics @ [(tl, vl, a)])"
    by simp
  from Suc.IH[OF rec this] show ?case by simp
qed

text \<open>
  Claim C6. Every triple that a completed \<^verbatim>\<open>train_loop\<close> returns, one per epoch, has a
  training loss of at least 0 and an accuracy between 0 and 100, when no batch loss is
  negative and the model returns one row of scores per image.
\<close>

theorem train_loop_metric_ranges:
  assumes run: "train_loop E G epochs w = Inr (metrics, w')"
    and nonneg: "\<forall>out lab w l w'. criterion E out lab w = Inr (l, w') \<longrightarrow> 0 \<le> loss_item E l"
    and rows: "\<forall>img w out w'. model_call E img w = Inr (out, w') \<longrightarrow> length out = length img"
  shows "list_all (\<lambda>(train_loss, valid_loss, accuracy).
                     0 \<le> train_loss \<and> 0 \<le> accuracy \<and> accuracy \<le> 100) metrics
         \<and> length metrics = nat epochs"
  using train_epochs_ranges[OF run[unfolded train_loop_def] nonneg rows] by simp

subsection \<open>Softmax keeps the order of the scores\<close>

lemma max_with_index_scaled:
  assumes "0 < S"
  shows "max_with_index (map (\<lambda>v. exp v / S) row) =
           map_option (\<lambda>(m, i). (exp m / S, i)) (max_with_index row)"
proof (induction row)
  case Nil
  then show ?case by simp
next
  case (Cons v vs)
  show ?case
  proof (cases "max_with_index vs")
    case None
    with Cons show ?thesis by simp
  next
    case (Some r)
    obtain m i where r: "r = (m, i)" by (cases r)
    have "exp v / S < exp m / S \<longleftrightarrow> v < m"
      using assms by (simp add: divide_less_cancel)
    with Cons Some r show ?thesis by simp
  qed
qed

lemma max_with_index_softmax:
  "max_with_index (softmax row) =
     map_option (\<lambda>(m, i). (exp m / (\<Sum>u\<leftarrow>row. exp u), i)) (max_with_index row)"
proof (cases row)
  case Nil
  then show ?thesis by (simp add: softmax_def)
next
  case (Cons v vs)
  have "0 \<le> (\<Sum>u\<leftarrow>vs. exp u)"
    by (rule sum_list_nonneg) auto
  then have "0 < (\<Sum>u\<leftarrow>row. exp u)"
    unfolding Cons by (simp add: add_pos_nonneg)
  from max_with_index_scaled[OF this] show ?thesis by (simp add: softmax_def)
qed

lemma upt_0_3: "[0..<3] = [0, 1, 2]"
  by code_simp

lemma upt_0_1: "[0..<1] = [0]"
  by code_simp


lemma toy_env_rows:
  "\<forall>img w out w'. model_call toy_env img w = Inr (out, w') \<longrightarrow> length out = length img"
  by (simp add: toy_env_def ret_def)

lemma toy_env_nonneg:
  "\<forall>out lab w l w'. criterion toy_env out lab w = Inr (l, w') \<longrightarrow> 0 \<le> loss_item toy_env l"
  by (auto simp: toy_env_def ret_def)


subsection \<open>The branching unit with kernels 3 and 5\<close>

lemma Block_forward_single_value:
  assumes "shape x = [N, ci, H, W]" "0 < k" "k \<le> H + 2 * p" "k \<le> W + 2 * p"
    "st_training st" "N * (H + 2 * p - k + 1) * (W + 2 * p - k + 1) = 1"
  shows "Block_forward (Block_init ci co k p r st) x = Inl BatchStatError"
proof -
  let ?b = "Block_init ci co k p r st"
  obtain u where u: "Conv2d_forward (conv ?b) x = Inr u"
      "shape u = [N, co, H + 2 * p - k + 1, W + 2 * p - k + 1]"
    using Conv2d_forward_shape[of x N ci H W "conv ?b"] assms(1-4)
    by (auto simp: Block_init_def)
  have t: "training (norm ?b)" using assms(5) by (simp add: Block_init_def)
  have "BatchNorm2d_forward (norm ?b) u = Inl BatchStatError"
    unfolding BatchNorm2d_forward_def u(2) list.case using t assms(6) by simp
  with u(1) show ?thesis by (simp add: Block_forward_def)
qed

lemma result_shape_Inr: "result_shape r = Inr s \<longleftrightarrow> (\<exists>t. r = Inr t \<and> shape t = s)"
  by (auto simp: result_shape_def split: sum.splits)

lemma add_t_same_shape:
  "shape y = shape z \<Longrightarrow> \<exists>s. add_t y z = Inr s \<and> shape s = shape y"
  by (simp add: add_t_def broadcast_shapes_same)

lemma AltBlock_3_5_path_b:
  assumes "shape x = [N, n, H, W]" "5 \<le> H" "5 \<le> W"
  shows "\<exists>u. Block_forward (Block_init n n 3 0 PyNone sb) x = Inr u \<and>
             shape u = [N, n, H - 2, W - 2]"
proof -
  have "\<exists>y. Block_forward (Block_init n n 3 0 PyNone sb) x = Inr y \<and>
          shape y = [N, n, H + 2 * 0 - 3 + 1, W + 2 * 0 - 3 + 1] \<and> wf_tensor y"
    by (rule Block_forward_shape_big[OF assms(1)]) (use assms in auto)
  moreover have "H + 2 * 0 - 3 + 1 = H - 2" "W + 2 * 0 - 3 + 1 = W - 2"
    using assms by auto
  ultimately show ?thesis by auto
qed

lemma AltBlock_3_5_cases:
  "padding (conv (ab_a (AltBlock_init n 3 5 sa sb sc))) = 0 \<and>
   padding (conv (ab_b (AltBlock_init n 3 5 sa sb sc))) = 0 \<and>
   padding (conv (ab_c (AltBlock_init n 3 5 sa sb sc))) = 0 \<and>
   (shape x = [N, n, H, W] \<and> 5 \<le> H \<and> 5 \<le> W \<longrightarrow>
      (if (st_training sa \<or> st_training sc) \<and> N * (H - 4) * (W - 4) = 1
       then AltBlock_forward (AltBlock_init n 3 5 sa sb sc) x = Inl BatchStatError
       else result_shape (AltBlock_path_A (AltBlock_init n 3 5 sa sb sc) x) = Inr [N, n, H - 4, W - 4] \<and>
            result_shape (AltBlock_path_B (AltBlock_init n 3 5 sa sb sc) x) = Inr [N, n, H - 4, W - 4] \<and>
            result_shape (AltBlock_forward (AltBlock_init n 3 5 sa sb sc) x) = Inr [N, n, H - 4, W - 4]))"
proof (intro conjI impI)
  let ?m = "AltBlock_init n 3 5 sa sb sc"
  show "padding (conv (ab_a ?m)) = 0" "padding (conv (ab_b ?m)) = 0" "padding (conv (ab_c ?m)) = 0"
    by (simp_all add: AltBlock_init_def Block_init_def)
  assume h: "shape x = [N, n, H, W] \<and> 5 \<le> H \<and> 5 \<le> W"
  then have sx: "shape x = [N, n, H, W]" and H: "5 \<le> H" and W: "5 \<le> W" by auto
  obtain u where u: "Block_forward (Block_init n n 3 0 PyNone sb) x = Inr u"
    "shape u = [N, n, H - 2, W - 2]"
    using AltBlock_3_5_path_b[OF sx H W] by blast
  have ka: "(3::nat) \<le> H - 2 + 2 * 0" "(3::nat) \<le> W - 2 + 2 * 0" using H W by auto
  have kc: "(5::nat) \<le> H + 2 * 0" "(5::nat) \<le> W + 2 * 0" using H W by auto
  have ea: "H - 2 + 2 * 0 - 3 + 1 = H - 4" "W - 2 + 2 * 0 - 3 + 1 = W - 4" using H W by auto
  have ec: "H + 2 * 0 - 5 + 1 = H - 4" "W + 2 * 0 - 5 + 1 = W - 4" using H W by auto
  have pa: "AltBlock_path_A ?m x = Block_forward (Block_init n n 3 0 (PyBool True) sa) u"
    using u(1) by (simp add: AltBlock_path_A_def AltBlock_init_def)
  have pb: "AltBlock_path_B ?m x = Block_forward (Block_init n n 5 0 PyNone sc) x"
    by (simp add: AltBlock_path_B_def AltBlock_init_def)
  show "if (st_training sa \<or> st_training sc) \<and> N * (H - 4) * (W - 4) = 1
       then AltBlock_forward ?m x = Inl BatchStatError
       else result_shape (AltBlock_path_A ?m x) = Inr [N, n, H - 4, W - 4] \<and>
            result_shape (AltBlock_path_B ?m x) = Inr [N, n, H - 4, W - 4] \<and>
            result_shape (AltBlock_forward ?m x) = Inr [N, n, H - 4, W - 4]"
  proof (cases "(st_training sa \<or> st_training sc) \<and> N * (H - 4) * (W - 4) = 1")
    case True
    then have one: "N * (H - 4) * (W - 4) = 1" by blast
    have "AltBlock_forward ?m x = Inl BatchStatError"
    proof (cases "st_training sa")
      case True
      have p1: "N * (H - 2 + 2 * 0 - 3 + 1) * (W - 2 + 2 * 0 - 3 + 1) = 1"
        unfolding ea by (rule one)
      have "Block_forward (Block_init n n 3 0 (PyBool True) sa) u = Inl BatchStatError"
        by (rule Block_forward_single_value[OF u(2) _ ka True p1]) simp
      then show ?thesis by (simp add: AltBlock_forward_def pa)
    next
      case False
      with True have tc: "st_training sc" by blast
      have fa: "st_training sa \<longrightarrow> N * (H - 2 + 2 * 0 - 3 + 1) * (W - 2 + 2 * 0 - 3 + 1) \<noteq> 1"
        using False by blast
      obtain y where y: "Block_forward (Block_init n n 3 0 (PyBool True) sa) u = Inr y"
        using Block_forward_shape[OF u(2) zero_less_numeral ka fa, of n "PyBool True"] by auto
      have p2: "N * (H + 2 * 0 - 5 + 1) * (W + 2 * 0 - 5 + 1) = 1"
        unfolding ec by (rule one)
      have "Block_forward (Block_init n n 5 0 PyNone sc) x = Inl BatchStatError"
        by (rule Block_forward_single_value[OF sx _ kc tc p2]) simp
      then show ?thesis by (simp add: AltBlock_forward_def pa pb y)
    qed
    then show ?thesis by (simp only: if_P[OF True])
  next
    case False
    then have fa: "st_training sa \<longrightarrow> N * (H - 2 + 2 * 0 - 3 + 1) * (W - 2 + 2 * 0 - 3 + 1) \<noteq> 1"
      and fc: "st_training sc \<longrightarrow> N * (H + 2 * 0 - 5 + 1) * (W + 2 * 0 - 5 + 1) \<noteq> 1"
      by (auto simp only: ea ec)
    obtain y where y: "Block_forward (Block_init n n 3 0 (PyBool True) sa) u = Inr y"
      "shape y = [N, n, H - 4, W - 4]"
      using Block_forward_shape[OF u(2) zero_less_numeral ka fa, of n "PyBool True"]
      by (auto simp only: ea)
    obtain z where z: "Block_forward (Block_init n n 5 0 PyNone sc) x = Inr z"
      "shape z = [N, n, H - 4, W - 4]"
      using Block_forward_shape[OF sx zero_less_numeral kc fc, of n PyNone]
      by (auto simp only: ec)
    obtain s where s: "add_t y z = Inr s" "shape s = [N, n, H - 4, W - 4]"
      using add_t_same_shape[of y z] y(2) z(2) by auto
    have rF: "result_shape (AltBlock_forward ?m x) = Inr [N, n, H - 4, W - 4]"
      by (simp add: AltBlock_forward_def pa pb y z s result_shape_def)
    have rA: "result_shape (AltBlock_path_A ?m x) = Inr [N, n, H - 4, W - 4]"
      by (simp add: pa y result_shape_def)
    have rB: "result_shape (AltBlock_path_B ?m x) = Inr [N, n, H - 4, W - 4]"
      by (simp add: pb z result_shape_def)
    show ?thesis by (simp only: if_not_P[OF False] rA rB rF simp_thms)
  qed
qed

lemma add_t_error: "add_t y z = Inl e \<Longrightarrow> e = ShapeError"
  by (auto simp: add_t_def split: option.splits)

text \<open>
  Claim C10. The three blocks of \<^verbatim>\<open>AltBlock(nc, 3, 5)\<close> have padding 0. On every input
  (N, nc, H, W) with H and W at least 5 the forward pass raises no shape error, and the
  outputs of path A and of path B both have shape (N, nc, H - 4, W - 4), so that their
  sum is defined and has that shape. Both paths and the forward pass do return such
  outputs, except where the normalisation of block \<^verbatim>\<open>a\<close> or \<^verbatim>\<open>c\<close> is in training mode
  and N * (H - 4) * (W - 4) = 1 (the library's refusal of a single value per channel,
  which is not a shape error).
\<close>

theorem AltBlock_3_5_shapes:
  "padding (conv (ab_a (AltBlock_init n 3 5 sa sb sc))) = 0 \<and>
   padding (conv (ab_b (AltBlock_init n 3 5 sa sb sc))) = 0 \<and>
   padding (conv (ab_c (AltBlock_init n 3 5 sa sb sc))) = 0 \<and>
   (shape x = [N, n, H, W] \<and> 5 \<le> H \<and> 5 \<le> W \<longrightarrow>
      AltBlock_forward (AltBlock_init n 3 5 sa sb sc) x \<noteq> Inl ShapeError \<and>
      (\<forall>y z. AltBlock_path_A (AltBlock_init n 3 5 sa sb sc) x = Inr y \<and>
             AltBlock_path_B (AltBlock_init n 3 5 sa sb sc) x = Inr z \<longrightarrow>
             shape y = [N, n, H - 4, W - 4] \<and> shape z = [N, n, H - 4, W - 4] \<and>
             result_shape (add_t y z) = Inr [N, n, H - 4, W - 4]) \<and>
      (\<not> ((st_training sa \<or> st_training sc) \<and> N * (H - 4) * (W - 4) = 1) \<longrightarrow>
         result_shape (AltBlock_path_A (AltBlock_init n 3 5 sa sb sc) x) = Inr [N, n, H - 4, W - 4] \<and>
         result_shape (AltBlock_path_B (AltBlock_init n 3 5 sa sb sc) x) = Inr [N, n, H - 4, W - 4] \<and>
         result_shape (AltBlock_forward (AltBlock_init n 3 5 sa sb sc) x) = Inr [N, n, H - 4, W - 4]))"
proof -
  let ?m = "AltBlock_init n 3 5 sa sb sc"
  let ?s = "[N, n, H - 4, W - 4]"
  let ?guard = "(st_training sa \<or> st_training sc) \<and> N * (H - 4) * (W - 4) = 1"
  note cases = AltBlock_3_5_cases[of n sa sb sc x N H W]
  have pad: "padding (conv (ab_a ?m)) = 0" "padding (conv (ab_b ?m)) = 0"
    "padding (conv (ab_c ?m)) = 0"
    using cases by simp_all
  have main: "AltBlock_forward ?m x \<noteq> Inl ShapeError \<and>
      (\<forall>y z. AltBlock_path_A ?m x = Inr y \<and> AltBlock_path_B ?m x = Inr z \<longrightarrow>
             shape y = ?s \<and> shape z = ?s \<and> result_shape (add_t y z) = Inr ?s) \<and>
      (\<not> ?guard \<longrightarrow>
         result_shape (AltBlock_path_A ?m x) = Inr ?s \<and>
         result_shape (AltBlock_path_B ?m x) = Inr ?s \<and>
         result_shape (AltBlock_forward ?m x) = Inr ?s)"
    if h: "shape x = [N, n, H, W] \<and> 5 \<le> H \<and> 5 \<le> W"
  proof (cases ?guard)
    case True
    with cases h have f: "AltBlock_forward ?m x = Inl BatchStatError"
      by (simp only: if_P simp_thms)
    have "False" if yz: "AltBlock_path_A ?m x = Inr y" "AltBlock_path_B ?m x = Inr z" for y z
    proof (cases "add_t y z")
      case (Inl e)
      with add_t_error[OF Inl] f yz show False by (simp add: AltBlock_forward_def)
    next
      case (Inr s)
      with f yz show False by (simp add: AltBlock_forward_def)
    qed
    with f True show ?thesis by auto
  next
    case False
    with cases h have r: "result_shape (AltBlock_path_A ?m x) = Inr ?s"
      "result_shape (AltBlock_path_B ?m x) = Inr ?s"
      "result_shape (AltBlock_forward ?m x) = Inr ?s"
      by (simp_all only: if_not_P simp_thms)
    have yz: "shape y = ?s \<and> shape z = ?s \<and> result_shape (add_t y z) = Inr ?s"
      if "AltBlock_path_A ?m x = Inr y" "AltBlock_path_B ?m x = Inr z" for y z
    proof -
      from that r have sy: "shape y = ?s" and sz: "shape z = ?s"
        by (simp_all add: result_shape_def)
      with add_t_same_shape[of y z] show ?thesis by (auto simp: result_shape_def)
    qed
    from r(3) have "AltBlock_forward ?m x \<noteq> Inl ShapeError"
      by (auto simp: result_shape_def)
    with r yz show ?thesis by blast
  qed
  from pad main show ?thesis by blast
qed

subsection \<open>Reading results\<close>

lemma value_at_Inr: "value_at r idx = Inr v \<longleftrightarrow> (\<exists>t. r = Inr t \<and> elems t idx = v)"
  by (auto simp: value_at_def split: sum.splits)

lemmas eval_add_relu =
  zeros_def add_t_def broadcast_shapes_def broadcast_dim_def in_bounds_def bidx_def relu_t_def

subsection \<open>The order of the two chained blocks\<close>

text \<open>
  Claim C1 (the code differs). \<^verbatim>\<open>ResBlock.forward\<close> computes \<^verbatim>\<open>self.a(self.b(x))\<close>: the
  block \<^verbatim>\<open>b\<close>, without activation, is applied first and the block \<^verbatim>\<open>a\<close>, with
  activation, last. On the zero input of shape (1, 1, 3, 3), with \<^verbatim>\<open>a\<close> constantly
  \<open>max 0 (- 1)\<close> and \<^verbatim>\<open>b\<close> constantly \<open>5\<close>, the code returns 0 where the unit as
  specified returns 5.
\<close>

theorem ResBlock_forward_applies_b_first:
  "rl (rb_a (ResBlock_init n k sa sb)) = PyBool True \<and>
   rl (rb_b (ResBlock_init n k sa sb)) = PyNone \<and>
   value_at (ResBlock_forward (ResBlock_init 1 3 (beta_state (- 1) False) (beta_state 5 False))
               (zeros [1, 1, 3, 3])) [0, 0, 0, 0] = Inr 0 \<and>
   value_at (ResBlock_as_specified (ResBlock_init 1 3 (beta_state (- 1) False) (beta_state 5 False))
               (zeros [1, 1, 3, 3])) [0, 0, 0, 0] = Inr 5"
  by (simp add: value_at_def ResBlock_forward_def ResBlock_as_specified_def ResBlock_init_def
      Block_forward_beta_state eval_add_relu)
     (simp add: Block_init_def)

text \<open>
  Claim C2 (the code differs). Path A of \<^verbatim>\<open>AltBlock.forward\<close> is \<^verbatim>\<open>self.a(self.b(x))\<close>
  as well: its last block has the activation. On the zero input of shape (1, 1, 5, 5),
  with \<^verbatim>\<open>a\<close> constantly \<open>max 0 (- 1)\<close>, \<^verbatim>\<open>b\<close> constantly \<open>5\<close> and \<^verbatim>\<open>c\<close> constantly \<open>- 2\<close>,
  the code returns \<open>max 0 (0 - 2) = 0\<close> where the unit as specified returns
  \<open>max 0 (5 - 2) = 3\<close>.
\<close>

theorem AltBlock_forward_applies_b_first:
  "rl (ab_a (AltBlock_init n k1 k2 sa sb sc)) = PyBool True \<and>
   rl (ab_b (AltBlock_init n k1 k2 sa sb sc)) = PyNone \<and>
   rl (ab_c (AltBlock_init n k1 k2 sa sb sc)) = PyNone \<and>
   value_at (AltBlock_forward
               (AltBlock_init 1 3 5 (beta_state (- 1) False) (beta_state 5 False) (beta_state (- 2) False))
               (zeros [1, 1, 5, 5])) [0, 0, 0, 0] = Inr 0 \<and>
   value_at (AltBlock_as_specified
               (AltBlock_init 1 3 5 (beta_state (- 1) False) (beta_state 5 False) (beta_state (- 2) False))
               (zeros [1, 1, 5, 5])) [0, 0, 0, 0] = Inr 3"
  by (simp add: value_at_def AltBlock_forward_def AltBlock_as_specified_def AltBlock_path_A_def
      AltBlock_path_B_def AltBlock_init_def Block_forward_beta_state eval_add_relu)
     (simp add: Block_init_def)

section \<open>The theorems at concrete inputs\<close>

theorem Block_forward_spec_witness:
  "value_at (Block_forward (Block_init 1 1 3 1 PyNone box_state) sample_image)
     [0, 0, 0, 0] = Inr (- 5) \<and>
   value_at (Block_forward (Block_init 1 1 3 1 (PyBool True) box_state) sample_image)
     [0, 0, 0, 0] = Inr 0 \<and>
   result_shape (Block_forward (Block_init 1 1 3 1 (PyBool True) box_state) sample_image)
     = Inr [1, 1, 2, 2]"
proof -
  have v: "value_at (Block_forward (Block_init 1 1 3 1 PyNone box_state) sample_image)
             [0, 0, 0, 0] = Inr (- 5) \<and>
           value_at (Block_forward (Block_init 1 1 3 1 (PyBool True) box_state) sample_image)
             [0, 0, 0, 0] = Inr 0"
    unfolding Block_forward_spec[THEN conjunct1]
    by (simp add: value_at_def then_norm_def then_relu_def relu_t_def box_state_def
        sample_image_def Conv2d_forward_def BatchNorm2d_forward_def conv_at_def pad_read_def
        in_bounds_def upt_0_3 upt_0_1 Let_def)
  have "\<exists>y. Block_forward (Block_init 1 1 3 1 (PyBool True) box_state) sample_image = Inr y \<and>
          shape y = [1, 1, 2 + 2 * 1 - 3 + 1, 2 + 2 * 1 - 3 + 1]"
    by (rule Block_forward_spec[THEN conjunct2, rule_format])
       (simp add: sample_image_def box_state_def)
  then have "result_shape (Block_forward (Block_init 1 1 3 1 (PyBool True) box_state) sample_image)
     = Inr [1, 1, 2, 2]"
    by (auto simp: result_shape_def)
  with v show ?thesis by simp
qed

theorem AltBlock_swap_witness:
  "value_at (AltBlock_forward_swapped
      (AltBlock_init 1 3 5 (beta_state 4 True) (beta_state 5 True) (beta_state (- 1) True))
      (zeros [2, 1, 5, 5])) [1, 0, 0, 0] = Inr 3"
proof -
  let ?m = "AltBlock_init 1 3 5 (beta_state 4 True) (beta_state 5 True) (beta_state (- 1) True)"
  have "value_at (AltBlock_forward ?m (zeros [2, 1, 5, 5])) [1, 0, 0, 0] = Inr 3"
    by (simp add: value_at_def AltBlock_forward_def AltBlock_path_A_def AltBlock_path_B_def
        AltBlock_init_def Block_forward_beta_state eval_add_relu)
  then obtain out where out: "AltBlock_forward ?m (zeros [2, 1, 5, 5]) = Inr out"
    "elems out [1, 0, 0, 0] = 3"
    by (auto simp: value_at_Inr)
  from out(1) have "AltBlock_forward_swapped ?m (zeros [2, 1, 5, 5]) = Inr out"
    by (simp only: AltBlock_swap)
  with out(2) show ?thesis by (simp add: value_at_def)
qed

theorem ResBlock_zero_weights_witness:
  "value_at (ResBlock_forward (ResBlock_init 1 3 (beta_state 0 True) (beta_state 0 False)) sample_image)
     [0, 0, 0, 0] = Inr 0 \<and>
   value_at (ResBlock_forward (ResBlock_init 1 3 (beta_state 0 True) (beta_state 0 False)) sample_image)
     [0, 0, 1, 1] = Inr 2"
proof -
  have z: "zero_weights (beta_state 0 True)" "zero_weights (beta_state 0 False)"
    by (simp_all add: zero_weights_def beta_state_def)
  have wf: "wf_tensor sample_image"
    by (simp add: wf_tensor_def sample_image_def)
  have "ResBlock_forward (ResBlock_init 1 3 (beta_state 0 True) (beta_state 0 False)) sample_image
          = Inr (relu_t sample_image)"
    using ResBlock_zero_weights[OF z wf, of 1 1 2 2]
    by (simp add: sample_image_def)
  then show ?thesis
    by (simp add: value_at_def relu_t_def sample_image_def in_bounds_def)
qed

theorem net0_output_shape_witness:
  "result_shape (Sequential_forward (net0 (\<lambda>i. beta_state 0 True) (\<lambda>oc i. 0) (\<lambda>oc. 0))
     (zeros [2, 3, 32, 32])) = Inr [2, 10]"
  using net0_output_shape[of "zeros [2, 3, 32, 32]" 2]
  by (simp add: zeros_def)


theorem evaluation_phase_accuracy_witness:
  "evaluation_phase (traced toy_env) toy_globals (2, []) = Inr ((3 / 2, 200 / 3), (2, toy_eval_trace)) \<and>
   (\<exists>outs losses.
      list_all2 (\<lambda>out idxs. length out = length idxs) outs
        (batch_sampler (bs toy_globals) [] [0..<length (testset toy_globals)]) \<and>
      toy_eval_trace =
        [] @ [EvNoGradEnter, EvModelEval]
           @ concat (map (eval_events (testset toy_globals))
                       (zip (batch_sampler (bs toy_globals) [] [0..<length (testset toy_globals)])
                            (zip outs losses)))
           @ [EvNoGradExit] \<and>
      length (concat outs) = length (testset toy_globals) \<and>
      (200 / 3 :: real) = 100 * real (length (filter correct
                             (zip (concat outs) (map snd (testset toy_globals)))))
                          / real (length (testset toy_globals)))"
proof -
  have run: "evaluation_phase (traced toy_env) toy_globals (2, [])
               = Inr ((3 / 2, 200 / 3), (2, toy_eval_trace))"
    by (simp add: evaluation_phase_def and_then_def lift_result_def ret_def traced_def logged_def
        loader_iter_def testloader_def toy_env_def toy_globals_def fetch_def py_truediv_def
        loader_len_def max_with_index_softmax eq_t_def sum_item_def toy_eval_trace_def upt_0_3)
  from evaluation_phase_accuracy[OF run toy_env_rows, THEN conjunct1] run show ?thesis by blast
qed

theorem train_loop_metric_ranges_witness:
  "train_loop toy_env toy_globals 2 0 = Inr ([(3 / 2, 3 / 2, 200 / 3), (3 / 2, 3 / 2, 200 / 3)], 4) \<and>
   list_all (\<lambda>(train_loss, valid_loss, accuracy).
               0 \<le> train_loss \<and> 0 \<le> accuracy \<and> accuracy \<le> 100)
     ([(3 / 2, 3 / 2, 200 / 3), (3 / 2, 3 / 2, 200 / 3)] :: (real \<times> real \<times> real) list)"
proof -
  have tp: "training_phase toy_env toy_globals w = Inr (3 / 2, Suc (Suc w))" for w
    by (simp add: training_phase_def and_then_def lift_result_def ret_def
        loader_iter_def trainloader_def toy_env_def toy_globals_def fetch_def py_truediv_def
        loader_len_def upt_0_3)
  have ep: "evaluation_phase toy_env toy_globals w = Inr ((3 / 2, 200 / 3), w)" for w
    by (simp add: evaluation_phase_def and_then_def lift_result_def ret_def
        loader_iter_def testloader_def toy_env_def toy_globals_def fetch_def py_truediv_def
        loader_len_def max_with_index_softmax eq_t_def sum_item_def upt_0_3)
  have te: "train_epoch toy_env toy_globals w = Inr ((3 / 2, 3 / 2, 200 / 3), Suc (Suc w))" for w
    by (simp add: train_epoch_def and_then_def ret_def tp ep)
  have run: "train_loop toy_env toy_globals 2 0
               = Inr ([(3 / 2, 3 / 2, 200 / 3), (3 / 2, 3 / 2, 200 / 3)], 4)"
    by (simp add: train_loop_def eval_nat_numeral and_then_def ret_def te)
  from train_loop_metric_ranges[OF run toy_env_nonneg toy_env_rows] run show ?thesis by blast
qed

theorem AltBlock_3_5_shapes_witness:
  "result_shape (AltBlock_forward (AltBlock_init 1 3 5 fresh_state fresh_state fresh_state)
     (zeros [2, 1, 5, 6])) = Inr [2, 1, 1, 2] \<and>
   AltBlock_forward (AltBlock_init 1 3 5 fresh_state fresh_state fresh_state)
     (zeros [1, 1, 5, 5]) \<noteq> Inl ShapeError"
  using AltBlock_3_5_shapes[of 1 fresh_state fresh_state fresh_state "zeros [2, 1, 5, 6]" 2 5 6]
    AltBlock_3_5_shapes[of 1 fresh_state fresh_state fresh_state "zeros [1, 1, 5, 5]" 1 5 5]
  by (simp add: zeros_def)

end
